theory Spec2Isabelle
  imports Complex_Main "HOL-Library.AList" "HOL-Library.Sublist"
begin

text \<open>
  A model of the content auditor: the cache, the budget manager, the SEO and
  accessibility rules, the tone analysis, the page pipeline and the batch run with its
  reports. Each function of the source is a function here; what the source mutates
  (the cache directory, the budget counters) is passed in and returned, and what it
  calls outside the repository is a parameter. The definitions come first, the
  properties of the program after them.
\<close>

section \<open>Python values\<close>

text \<open>
  The auditor passes plain Python data between its components: the page result is a
  \<^verbatim>\<open>dict\<close> that is dumped to and loaded from JSON files. The values are modelled by
  one datatype. \<open>JNull\<close> is Python's \<^verbatim>\<open>None\<close>; a \<^verbatim>\<open>dict\<close> is an association list in
  insertion order (keys are strings, as JSON has them); a \<^verbatim>\<open>float\<close> is the exact
  rational it stands for (rounding is not modelled).
\<close>

datatype json =
    JNull
  | JBool bool
  | JInt int
  | JFloat rat
  | JString string
  | JArray "json list"
  | JObject "(string \<times> json) list"

datatype py_error =
    KeyError string
  | TypeError
  | ValueError
  | ZeroDivisionError
  | LibraryError
  | JSONDecodeError
  | RecursionError
  | Exit int

text \<open>Truth value testing, as \<^verbatim>\<open>if x:\<close> and \<^verbatim>\<open>if not x:\<close> do it.\<close>

fun truthy :: "json \<Rightarrow> bool" where
  "truthy JNull = False"
| "truthy (JBool b) = b"
| "truthy (JInt i) = (i \<noteq> 0)"
| "truthy (JFloat r) = (r \<noteq> 0)"
| "truthy (JString s) = (s \<noteq> [])"
| "truthy (JArray xs) = (xs \<noteq> [])"
| "truthy (JObject kvs) = (kvs \<noteq> [])"

text \<open>\<^verbatim>\<open>Optional[str]\<close>: \<^verbatim>\<open>None\<close> and the empty string are both false.\<close>

fun truthy_str :: "string option \<Rightarrow> bool" where
  "truthy_str None = False"
| "truthy_str (Some s) = (s \<noteq> [])"

text \<open>\<^verbatim>\<open>d.get(k, default)\<close>, \<^verbatim>\<open>d[k]\<close> and \<^verbatim>\<open>d[k] = v\<close> on a \<^verbatim>\<open>dict\<close>.\<close>

definition dict_get :: "(string \<times> 'v) list \<Rightarrow> string \<Rightarrow> 'v \<Rightarrow> 'v" where
  "dict_get d k dflt = (case map_of d k of None \<Rightarrow> dflt | Some v \<Rightarrow> v)"

definition dict_set :: "(string \<times> 'v) list \<Rightarrow> string \<Rightarrow> 'v \<Rightarrow> (string \<times> 'v) list" where
  "dict_set d k v = AList.update k v d"

text \<open>
  \<^verbatim>\<open>x[k]\<close> on a loaded value: a \<^verbatim>\<open>dict\<close> without the key raises \<^verbatim>\<open>KeyError\<close>, and a
  value that is not a \<^verbatim>\<open>dict\<close> raises \<^verbatim>\<open>TypeError\<close> for a string subscript.
\<close>

fun py_getitem :: "json \<Rightarrow> string \<Rightarrow> py_error + json" where
  "py_getitem (JObject kvs) k =
     (case map_of kvs k of None \<Rightarrow> Inl (KeyError k) | Some v \<Rightarrow> Inr v)"
| "py_getitem _ k = Inl TypeError"

text \<open>\<^verbatim>\<open>len(x)\<close>: defined on strings, lists and dicts.\<close>

fun py_len :: "json \<Rightarrow> py_error + nat" where
  "py_len (JString s) = Inr (length s)"
| "py_len (JArray xs) = Inr (length xs)"
| "py_len (JObject kvs) = Inr (length kvs)"
| "py_len _ = Inl TypeError"

section \<open>Strings\<close>

text \<open>
  A character is a code point below 256. What \<^verbatim>\<open>str.strip()\<close>, \<^verbatim>\<open>str.split()\<close> and
  the pattern \<^verbatim>\<open>\s\<close> take for white space in that range: tab, line feed, vertical tab,
  form feed, carriage return, the four separators \<^verbatim>\<open>0x1c\<close> to \<^verbatim>\<open>0x1f\<close>, space, next
  line (\<^verbatim>\<open>0x85\<close>) and no-break space (\<^verbatim>\<open>0xa0\<close>).
\<close>

definition is_space :: "char \<Rightarrow> bool" where
  "is_space c = (c \<in> set [CHR 0x20, CHR 0x09, CHR 0x0A, CHR 0x0B, CHR 0x0C, CHR 0x0D,
                            CHR 0x1C, CHR 0x1D, CHR 0x1E, CHR 0x1F, CHR 0x85, CHR 0xA0])"

definition strip :: "string \<Rightarrow> string" where
  "strip s = rev (dropWhile is_space (rev (dropWhile is_space s)))"

text \<open>\<^verbatim>\<open>text.split()\<close>: the maximal runs of characters that are not white space.\<close>

fun split_ws :: "string \<Rightarrow> string \<Rightarrow> string list" where
  "split_ws [] w = (if w = [] then [] else [w])"
| "split_ws (c # cs) w =
     (if is_space c then (if w = [] then split_ws cs [] else w # split_ws cs [])
      else split_ws cs (w @ [c]))"

definition py_split :: "string \<Rightarrow> string list" where
  "py_split s = split_ws s []"

text \<open>\<^verbatim>\<open>s.split(sep)\<close> for a one-character separator, and \<^verbatim>\<open>sep.join(xs)\<close>.\<close>

fun split_on :: "char \<Rightarrow> string \<Rightarrow> string \<Rightarrow> string list" where
  "split_on sep [] w = [w]"
| "split_on sep (c # cs) w =
     (if c = sep then w # split_on sep cs [] else split_on sep cs (w @ [c]))"

fun join :: "string \<Rightarrow> string list \<Rightarrow> string" where
  "join sep [] = []"
| "join sep [x] = x"
| "join sep (x # y # ys) = x @ sep @ join sep (y # ys)"

definition startswith :: "string \<Rightarrow> string \<Rightarrow> bool" where
  "startswith s p = (take (length p) s = p)"

definition endswith :: "string \<Rightarrow> string \<Rightarrow> bool" where
  "endswith s p = (length p \<le> length s \<and> drop (length s - length p) s = p)"

text \<open>
  \<^verbatim>\<open>s.replace(old, new)\<close>: the occurrences of \<open>old\<close> are replaced from the left and do
  not overlap. An empty \<open>old\<close> matches before every character and at the end.
\<close>

function py_replace :: "string \<Rightarrow> string \<Rightarrow> string \<Rightarrow> string" where
  "py_replace old new s =
     (if old = [] then new @ concat (map (\<lambda>c. c # new) s)
      else if s = [] then []
      else if startswith s old then new @ py_replace old new (drop (length old) s)
      else hd s # py_replace old new (tl s))"
  by pat_completeness auto
termination
  by (relation "measure (\<lambda>(old, new, s). length s)") auto

text \<open>\<^verbatim>\<open>sub in s\<close> on strings: \<open>sub\<close> occurs in \<open>s\<close> as a contiguous block.\<close>

fun is_substring :: "string \<Rightarrow> string \<Rightarrow> bool" where
  "is_substring sub [] = (sub = [])"
| "is_substring sub (c # cs) = (startswith (c # cs) sub \<or> is_substring sub cs)"

text \<open>
  \<^verbatim>\<open>s.lower()\<close>: the letters \<^verbatim>\<open>A\<close> to \<^verbatim>\<open>Z\<close> and the capital letters \<^verbatim>\<open>0xc0\<close> to \<^verbatim>\<open>0xde\<close>
  (without the multiplication sign \<^verbatim>\<open>0xd7\<close>) move up by 32.
\<close>

definition latin_upper :: string where
  "latin_upper =
     [CHR 0xC0, CHR 0xC1, CHR 0xC2, CHR 0xC3, CHR 0xC4, CHR 0xC5, CHR 0xC6, CHR 0xC7,
        CHR 0xC8, CHR 0xC9, CHR 0xCA, CHR 0xCB, CHR 0xCC, CHR 0xCD, CHR 0xCE, CHR 0xCF,
        CHR 0xD0, CHR 0xD1, CHR 0xD2, CHR 0xD3, CHR 0xD4, CHR 0xD5, CHR 0xD6, CHR 0xD8,
        CHR 0xD9, CHR 0xDA, CHR 0xDB, CHR 0xDC, CHR 0xDD, CHR 0xDE]"

definition latin_lower :: string where
  "latin_lower =
     [CHR 0xE0, CHR 0xE1, CHR 0xE2, CHR 0xE3, CHR 0xE4, CHR 0xE5, CHR 0xE6, CHR 0xE7,
        CHR 0xE8, CHR 0xE9, CHR 0xEA, CHR 0xEB, CHR 0xEC, CHR 0xED, CHR 0xEE, CHR 0xEF,
        CHR 0xF0, CHR 0xF1, CHR 0xF2, CHR 0xF3, CHR 0xF4, CHR 0xF5, CHR 0xF6, CHR 0xF8,
        CHR 0xF9, CHR 0xFA, CHR 0xFB, CHR 0xFC, CHR 0xFD, CHR 0xFE]"

definition lower_char :: "char \<Rightarrow> char" where
  "lower_char c =
     (case map_of (zip (''ABCDEFGHIJKLMNOPQRSTUVWXYZ'' @ latin_upper)
                       (''abcdefghijklmnopqrstuvwxyz'' @ latin_lower)) c of
        None \<Rightarrow> c
      | Some l \<Rightarrow> l)"

definition lower :: "string \<Rightarrow> string" where
  "lower s = map lower_char s"

text \<open>\<^verbatim>\<open>str(n)\<close> for an integer: its decimal digits, with a sign when negative.\<close>

fun str_nat :: "nat \<Rightarrow> string" where
  "str_nat n =
     (if n < 10 then [''0123456789'' ! n] else str_nat (n div 10) @ [''0123456789'' ! (n mod 10)])"

declare str_nat.simps [simp del]

definition str_int :: "int \<Rightarrow> string" where
  "str_int i = (if i < 0 then CHR ''-'' # str_nat (nat (- i)) else str_nat (nat i))"

section \<open>The collaborators outside the repository\<close>

text \<open>
  An HTML element as the checks read it off the parsed document: its name, its
  attributes, and the text \<^verbatim>\<open>get_text(strip=True)\<close> gives for it. A parsed document is
  the list of its elements in document order.
\<close>

record tag =
  tag_name :: string
  tag_attrs :: "(string \<times> string) list"
  tag_text :: string

text \<open>
  The libraries and services the code calls, as parameters of the model. \<open>'w\<close> is the
  state of the outside world (the network, the model server): a call that depends on
  it takes the world and returns the next one.
  \<^item> \<open>sha256_hex\<close>: \<^verbatim>\<open>hashlib.sha256(key.encode()).hexdigest()\<close>;
  \<^item> \<open>json_dump\<close>: \<^verbatim>\<open>json.dump(data, f, indent=2)\<close>, the text written to the file
    (dumping a value of the model is taken to succeed);
  \<^item> \<open>json_dumps\<close>: \<^verbatim>\<open>json.dumps(result)\<close>;
  \<^item> \<open>json_loads\<close>: \<^verbatim>\<open>json.load\<close> and \<^verbatim>\<open>json.loads\<close>, \<open>Inl\<close> the exception when they
    raise: \<^verbatim>\<open>JSONDecodeError\<close> on a text that is not JSON, or another one (such as
    \<^verbatim>\<open>RecursionError\<close> on a text nested too deep);
  \<^item> \<open>http_get\<close>: the \<^verbatim>\<open>httpx\<close> request with \<^verbatim>\<open>raise_for_status\<close>, \<open>None\<close> when it
    raises;
  \<^item> \<open>readability\<close>: \<^verbatim>\<open>Document(html).summary()\<close>, parsed, without its script and
    style elements, read by \<^verbatim>\<open>get_text(separator=' ', strip=True)\<close>; \<open>None\<close> when one
    of them raises;
  \<^item> \<open>html_parser\<close>: \<^verbatim>\<open>BeautifulSoup(html, 'html.parser')\<close>, \<open>Inl\<close> the message of the
    exception when it raises;
  \<^item> \<open>llm_invoke\<close>: building the \<^verbatim>\<open>Ollama\<close> client and \<^verbatim>\<open>llm.invoke(prompt)\<close>, \<open>None\<close>
    when one of them raises;
  \<^item> \<open>format_1f\<close>: the format \<^verbatim>\<open>:.1f\<close> of a number.
\<close>

record 'w env =
  sha256_hex :: "string \<Rightarrow> string"
  json_dump :: "json \<Rightarrow> string"
  json_dumps :: "json \<Rightarrow> string"
  json_loads :: "string \<Rightarrow> py_error + json"
  http_get :: "string \<Rightarrow> 'w \<Rightarrow> string option \<times> 'w"
  readability :: "string \<Rightarrow> string option"
  html_parser :: "string \<Rightarrow> string + tag list"
  llm_invoke :: "string \<Rightarrow> 'w \<Rightarrow> string option \<times> 'w"
  format_1f :: "rat \<Rightarrow> string"

section \<open>Budget manager (utils/budget.py)\<close>

record BudgetManager =
  max_calls :: int
  calls_made :: int
  calls_by_type :: "(string \<times> int) list"

definition BudgetManager_init :: "int \<Rightarrow> BudgetManager" where
  "BudgetManager_init n = \<lparr>max_calls = n, calls_made = 0, calls_by_type = []\<rparr>"

definition can_make_call :: "BudgetManager \<Rightarrow> string \<Rightarrow> bool" where
  "can_make_call b call_type = (if calls_made b \<ge> max_calls b then False else True)"

definition record_call :: "BudgetManager \<Rightarrow> string \<Rightarrow> BudgetManager" where
  "record_call b call_type =
     b\<lparr>calls_made := calls_made b + 1,
       calls_by_type :=
         dict_set (calls_by_type b) call_type (dict_get (calls_by_type b) call_type 0 + 1)\<rparr>"

section \<open>Cache (utils/cache.py)\<close>

text \<open>
  The cache directory: the names of its files with their contents. Reading and
  writing a file of the directory are taken to succeed; what \<^verbatim>\<open>get\<close> does when the
  content does not parse is modelled.
\<close>

type_synonym cache_dir = "(string \<times> string) list"

definition get_hash :: "'w env \<Rightarrow> string \<Rightarrow> string" where
  "get_hash env key = sha256_hex env key"

definition get_cache_path :: "'w env \<Rightarrow> string \<Rightarrow> string" where
  "get_cache_path env key = get_hash env key @ ''.json''"

text \<open>\<^verbatim>\<open>Cache.get\<close>: \<open>JNull\<close> (\<^verbatim>\<open>None\<close>) when the file is missing or does not load.\<close>

definition Cache_get :: "'w env \<Rightarrow> cache_dir \<Rightarrow> string \<Rightarrow> json" where
  "Cache_get env files key =
     (case map_of files (get_cache_path env key) of
        None \<Rightarrow> JNull
      | Some content \<Rightarrow>
          (case json_loads env content of Inl e \<Rightarrow> JNull | Inr data \<Rightarrow> data))"

definition Cache_set :: "'w env \<Rightarrow> cache_dir \<Rightarrow> string \<Rightarrow> json \<Rightarrow> cache_dir" where
  "Cache_set env files key data =
     AList.update (get_cache_path env key) (json_dump env data) files"

text \<open>\<^verbatim>\<open>cache_dir.glob("*.json")\<close> and \<^verbatim>\<open>cache_file.unlink()\<close>.\<close>

definition glob_json :: "cache_dir \<Rightarrow> string list" where
  "glob_json files = filter (\<lambda>name. endswith name ''.json'') (map fst files)"

definition unlink :: "string \<Rightarrow> cache_dir \<Rightarrow> cache_dir" where
  "unlink name files = AList.delete name files"

text \<open>
  \<^verbatim>\<open>Cache.clear\<close>: the loop unlinks each file and counts it. The method has no
  \<^verbatim>\<open>return\<close>, so the call returns \<^verbatim>\<open>None\<close>; the count goes to the log line. The result
  is the returned value, the directory afterwards and the line logged.
\<close>

definition clear_loop :: "cache_dir \<Rightarrow> cache_dir \<times> int" where
  "clear_loop files =
     fold (\<lambda>cache_file (fs, count). (unlink cache_file fs, count + 1)) (glob_json files)
       (files, 0)"

definition Cache_clear :: "cache_dir \<Rightarrow> json \<times> cache_dir \<times> string" where
  "Cache_clear files =
     (case clear_loop files of
        (fs, count) \<Rightarrow> (JNull, fs, ''Cleared '' @ str_int count @ '' cached files''))"

text \<open>
  \<^verbatim>\<open>Cache.get_stats\<close>: the number of entries and their size in bytes (the size in
  megabytes is a rounded float derived from it and is left out).
\<close>

definition Cache_get_stats :: "cache_dir \<Rightarrow> nat \<times> nat" where
  "Cache_get_stats files =
     (length (glob_json files),
      sum_list (map (\<lambda>(name, content). length content)
        (filter (\<lambda>(name, content). endswith name ''.json'') files)))"

section \<open>Queries on a parsed document\<close>

definition find_all :: "tag list \<Rightarrow> string \<Rightarrow> tag list" where
  "find_all soup name = filter (\<lambda>t. tag_name t = name) soup"

definition find_tag :: "tag list \<Rightarrow> string \<Rightarrow> tag option" where
  "find_tag soup name = List.find (\<lambda>t. tag_name t = name) soup"

text \<open>
  \<^verbatim>\<open>soup.find(name, attrs={k: v})\<close>. The parser reads \<^verbatim>\<open>rel\<close> as a list of tokens, and
  such an attribute matches when one token is \<open>v\<close> or the tokens joined by spaces are;
  any other attribute matches when its value is \<open>v\<close>.
\<close>

definition attr_matches :: "tag \<Rightarrow> string \<Rightarrow> string \<Rightarrow> bool" where
  "attr_matches t k v =
     (case map_of (tag_attrs t) k of
        None \<Rightarrow> False
      | Some a \<Rightarrow>
          if k = ''rel'' then v \<in> set (py_split a) \<or> v = join '' '' (py_split a)
          else a = v)"

definition find_attr :: "tag list \<Rightarrow> string \<Rightarrow> string \<Rightarrow> string \<Rightarrow> tag option" where
  "find_attr soup name k v = List.find (\<lambda>t. tag_name t = name \<and> attr_matches t k v) soup"

text \<open>\<^verbatim>\<open>tag.get(k)\<close>: the attribute's value, \<^verbatim>\<open>None\<close> when the element has none.\<close>

definition tag_get :: "tag \<Rightarrow> string \<Rightarrow> string option" where
  "tag_get t k = map_of (tag_attrs t) k"

section \<open>SEO rules (rules/seo_rules.py)\<close>

text \<open>
  Each check returns its score, what it measured and its issues. The bundle of a rule
  set is the \<^verbatim>\<open>results\<close> dict: \<open>overall_score\<close> is set when the checks ran through,
  \<open>error\<close> when the \<^verbatim>\<open>except\<close> branch was taken.
\<close>

record rule_bundle =
  scores :: "(string \<times> int) list"
  issues :: "string list"
  metrics :: "(string \<times> int) list"
  overall_score :: "rat option"
  error :: "string option"

definition check_title_tag :: "tag list \<Rightarrow> int \<times> nat \<times> string list" where
  "check_title_tag soup =
     (case find_tag soup ''title'' of
        None \<Rightarrow> (0, 0, [''Missing title tag''])
      | Some title_tag \<Rightarrow>
          let n = length (tag_text title_tag) in
          if n = 0 then (0, n, [''Empty title tag''])
          else if n < 30 then
            (50, n, [''Title too short ('' @ str_int (int n) @ '' chars, recommended 30-60)''])
          else if n > 60 then
            (75, n, [''Title too long ('' @ str_int (int n) @ '' chars, recommended 30-60)''])
          else (100, n, []))"

definition check_meta_description :: "tag list \<Rightarrow> int \<times> nat \<times> string list" where
  "check_meta_description soup =
     (case find_attr soup ''meta'' ''name'' ''description'' of
        None \<Rightarrow> (0, 0, [''Missing meta description''])
      | Some meta_desc \<Rightarrow>
          if \<not> truthy_str (tag_get meta_desc ''content'')
          then (0, 0, [''Missing meta description''])
          else
            let n = (case tag_get meta_desc ''content'' of None \<Rightarrow> 0 | Some c \<Rightarrow> length c) in
            if n = 0 then (0, n, [''Empty meta description''])
            else if n < 120 then
              (50, n, [''Meta description too short ('' @ str_int (int n)
                         @ '' chars, recommended 120-160)''])
            else if n > 160 then
              (75, n, [''Meta description too long ('' @ str_int (int n)
                         @ '' chars, recommended 120-160)''])
            else (100, n, []))"

definition check_h1_tags :: "tag list \<Rightarrow> int \<times> nat \<times> string list" where
  "check_h1_tags soup =
     (let n = length (find_all soup ''h1'') in
      if n = 0 then (0, n, [''Missing H1 tag''])
      else if n > 1 then
        (75, n, [''Multiple H1 tags found ('' @ str_int (int n) @ '', recommended 1)''])
      else (100, n, []))"

definition check_canonical :: "tag list \<Rightarrow> int \<times> string list" where
  "check_canonical soup =
     (case find_attr soup ''link'' ''rel'' ''canonical'' of
        None \<Rightarrow> (0, [''Missing canonical URL''])
      | Some canonical \<Rightarrow>
          if \<not> truthy_str (tag_get canonical ''href'') then (0, [''Missing canonical URL''])
          else (100, []))"

definition check_word_count :: "string \<Rightarrow> int \<times> nat \<times> string list" where
  "check_word_count text =
     (let n = length (py_split text) in
      if n < 300 then
        (25, n, [''Low word count ('' @ str_int (int n) @ '', recommended 300+)''])
      else if n < 600 then (75, n, [])
      else (100, n, []))"

text \<open>\<^verbatim>\<open>sum(scores) / len(scores) if scores else 0\<close>.\<close>

definition mean_score :: "(string \<times> int) list \<Rightarrow> rat" where
  "mean_score scs =
     (if scs = [] then 0 else of_int (sum_list (map snd scs)) / of_nat (length scs))"

definition check_seo :: "'w env \<Rightarrow> string \<Rightarrow> string \<Rightarrow> rule_bundle" where
  "check_seo env html text =
     (case html_parser env html of
        Inl e \<Rightarrow> \<lparr>scores = [], issues = [], metrics = [], overall_score = None, error = Some e\<rparr>
      | Inr soup \<Rightarrow>
          (case check_title_tag soup of (title_score, title_length, title_issues) \<Rightarrow>
           case check_meta_description soup of (meta_score, meta_length, meta_issues) \<Rightarrow>
           case check_h1_tags soup of (h1_score, h1_count, h1_issues) \<Rightarrow>
           case check_canonical soup of (canonical_score, canonical_issues) \<Rightarrow>
           case check_word_count text of (word_score, word_count, word_issues) \<Rightarrow>
             let scs = [(''title'', title_score), (''meta_description'', meta_score),
                        (''h1'', h1_score), (''canonical'', canonical_score),
                        (''word_count'', word_score)]
             in \<lparr>scores = scs,
                 issues = title_issues @ meta_issues @ h1_issues @ canonical_issues @ word_issues,
                 metrics = [(''title_length'', int title_length),
                            (''meta_desc_length'', int meta_length),
                            (''h1_count'', int h1_count), (''word_count'', int word_count)],
                 overall_score = Some (mean_score scs),
                 error = None\<rparr>))"

section \<open>Accessibility rules (rules/a11y_rules.py)\<close>

text \<open>
  The issue line of the image and link checks:
  \<^verbatim>\<open>f"{total - n} {what} ({percentage:.1f}% {have})"\<close>.
\<close>

definition missing_line :: "'w env \<Rightarrow> nat \<Rightarrow> nat \<Rightarrow> string \<Rightarrow> string \<Rightarrow> string" where
  "missing_line env total_n n what have =
     str_int (int total_n - int n) @ what @ '' (''
       @ format_1f env (of_nat n / of_nat total_n * 100) @ ''% '' @ have @ '')''"

definition check_image_alts :: "'w env \<Rightarrow> tag list \<Rightarrow> int \<times> nat \<times> nat \<times> string list" where
  "check_image_alts env soup =
     (let images = find_all soup ''img''; total_n = length images in
      if total_n = 0 then (100, total_n, 0, [])
      else
        let with_alt = length (filter (\<lambda>img. tag_get img ''alt'' \<noteq> None) images);
            alt_percentage = (of_nat with_alt / of_nat total_n * 100 :: rat);
            line = missing_line env total_n with_alt '' images missing alt text'' ''have alt''
        in if alt_percentage = 100 then (100, total_n, with_alt, [])
           else if alt_percentage \<ge> 80 then (75, total_n, with_alt, [line])
           else if alt_percentage \<ge> 50 then (50, total_n, with_alt, [line])
           else (25, total_n, with_alt, [line]))"

text \<open>
  The headings are collected level by level, \<^verbatim>\<open>h1\<close> to \<^verbatim>\<open>h6\<close>, not in document
  order; the first jump of more than one level ends the scan.
\<close>

definition heading_levels :: "tag list \<Rightarrow> nat list" where
  "heading_levels soup =
     concat (map (\<lambda>level. map (\<lambda>heading. level) (find_all soup (''h'' @ str_int (int level))))
       [1, 2, 3, 4, 5, 6])"

fun first_skip :: "nat list \<Rightarrow> (nat \<times> nat) option" where
  "first_skip (a # b # rest) = (if int b - int a > 1 then Some (a, b) else first_skip (b # rest))"
| "first_skip _ = None"

definition check_heading_hierarchy :: "tag list \<Rightarrow> int \<times> string list" where
  "check_heading_hierarchy soup =
     (let headings = heading_levels soup in
      if headings = [] then (50, [''No headings found''])
      else
        (case first_skip headings of
           None \<Rightarrow> (100, [])
         | Some (a, b) \<Rightarrow>
             (50, [''Heading hierarchy skips from H'' @ str_int (int a) @ '' to H''
                     @ str_int (int b)])))"

definition generic_phrases :: "string list" where
  "generic_phrases = [''click here'', ''read more'', ''here'', ''more'', ''link'']"

definition check_link_text :: "'w env \<Rightarrow> tag list \<Rightarrow> int \<times> nat \<times> nat \<times> string list" where
  "check_link_text env soup =
     (let links = find_all soup ''a''; total_n = length links in
      if total_n = 0 then (100, total_n, 0, [])
      else
        let texts = filter (\<lambda>text. text \<noteq> []) (map (\<lambda>link. lower (tag_text link)) links);
            with_text = length texts;
            generic_count = length (filter (\<lambda>text. text \<in> set generic_phrases) texts);
            text_percentage = (of_nat with_text / of_nat total_n * 100 :: rat)
        in if text_percentage < 80 then
             (25, total_n, with_text,
              [missing_line env total_n with_text '' links without text'' ''have text''])
           else if (of_nat generic_count :: rat) > of_nat total_n * (2 / 10) then
             (50, total_n, with_text,
              [str_int (int generic_count)
                 @ '' links use generic text (e.g., 'click here', 'read more')''])
           else (100, total_n, with_text, []))"

definition check_a11y :: "'w env \<Rightarrow> string \<Rightarrow> string \<Rightarrow> rule_bundle" where
  "check_a11y env html text =
     (case html_parser env html of
        Inl e \<Rightarrow> \<lparr>scores = [], issues = [], metrics = [], overall_score = None, error = Some e\<rparr>
      | Inr soup \<Rightarrow>
          (case check_image_alts env soup of (img_score, img_total, img_with_alt, img_issues) \<Rightarrow>
           case check_heading_hierarchy soup of (heading_score, heading_issues) \<Rightarrow>
           case check_link_text env soup of (link_score, link_total, link_with_text, link_issues) \<Rightarrow>
             let scs = [(''image_alts'', img_score), (''heading_hierarchy'', heading_score),
                        (''link_text'', link_score)]
             in \<lparr>scores = scs,
                 issues = img_issues @ heading_issues @ link_issues,
                 metrics = [(''images_total'', int img_total),
                            (''images_with_alt'', int img_with_alt),
                            (''links_total'', int link_total),
                            (''links_with_text'', int link_with_text)],
                 overall_score = Some (mean_score scs),
                 error = None\<rparr>))"

section \<open>Text extraction (utils/html_to_text.py) and fetching (utils/html_fetch.py)\<close>

text \<open>\<^verbatim>\<open>re.sub(r'\s+', ' ', text)\<close>: every run of white space becomes one space.\<close>

fun collapse_ws :: "bool \<Rightarrow> string \<Rightarrow> string" where
  "collapse_ws in_run [] = []"
| "collapse_ws in_run (c # cs) =
     (if is_space c then (if in_run then collapse_ws True cs else CHR 0x20 # collapse_ws True cs)
      else c # collapse_ws False cs)"

definition extract_text :: "'w env \<Rightarrow> string \<Rightarrow> string option" where
  "extract_text env html =
     (case readability env html of
        None \<Rightarrow> None
      | Some raw \<Rightarrow>
          let text = strip (collapse_ws False raw) in
          Some (if length text > 50000 then take 50000 text else text))"

section \<open>Tone analysis (chains/tone_chain.py)\<close>

definition prompt :: "string \<Rightarrow> string" where
  "prompt text =
     concat
       [''You are a concise content analyzer. '',
        ''Analyze the following text for tone and readability.'', [CHR 0x0A, CHR 0x0A],
        ''Provide your response as a JSON object with these exact keys:'', [CHR 0x0A],
        ''- '', [CHR 0x22], ''readability'', [CHR 0x22],
        '': Brief assessment (max 2 sentences)'', [CHR 0x0A],
        ''- '', [CHR 0x22], ''tone'', [CHR 0x22],
        '': Brief description (max 2 sentences)'', [CHR 0x0A],
        ''- '', [CHR 0x22], ''risks'', [CHR 0x22],
        '': Potential issues (max 2 sentences)'', [CHR 0x0A, CHR 0x0A],
        ''Text to analyze:'', [CHR 0x0A], text, [CHR 0x0A, CHR 0x0A],
        ''Response (JSON only):'']"

definition fence :: string where
  "fence = [CHR 0x60, CHR 0x60, CHR 0x60]"

text \<open>
  The response before it is parsed: stripped, and when it opens with a code fence,
  without its first and last line (if it has more than two) and without the fences.
\<close>

definition clean_response :: "string \<Rightarrow> string" where
  "clean_response response0 =
     (let response = strip response0 in
      if startswith response fence then
        let lines = split_on (CHR 0x0A) response [];
            inner = (if length lines > 2 then join [CHR 0x0A] (butlast (tl lines)) else response)
        in strip (py_replace fence [] (py_replace (fence @ ''json'') [] inner))
      else response)"

text \<open>
  \<^verbatim>\<open>key in result\<close>: a key of a dict, an element of a list, a substring of a string;
  on any other value the test raises \<^verbatim>\<open>TypeError\<close>.
\<close>

fun py_contains :: "json \<Rightarrow> string \<Rightarrow> py_error + bool" where
  "py_contains (JObject kvs) key = Inr (key \<in> set (map fst kvs))"
| "py_contains (JArray xs) key = Inr (JString key \<in> set xs)"
| "py_contains (JString s) key = Inr (is_substring key s)"
| "py_contains _ key = Inl TypeError"

text \<open>\<^verbatim>\<open>all(key in result for key in keys)\<close>: stops at the first key that is missing.\<close>

fun all_keys_in :: "json \<Rightarrow> string list \<Rightarrow> py_error + bool" where
  "all_keys_in result [] = Inr True"
| "all_keys_in result (key # keys) =
     (case py_contains result key of
        Inl e \<Rightarrow> Inl e
      | Inr False \<Rightarrow> Inr False
      | Inr True \<Rightarrow> all_keys_in result keys)"

definition invalid_format :: json where
  "invalid_format =
     JObject [(''readability'', JString ''Unable to analyze''),
              (''tone'', JString ''Unable to analyze''),
              (''risks'', JString ''Analysis failed - invalid response format'')]"

definition parse_error :: json where
  "parse_error =
     JObject [(''readability'', JString ''Unable to analyze''),
              (''tone'', JString ''Unable to analyze''),
              (''risks'', JString ''Analysis failed - JSON parse error'')]"

text \<open>
  The body of the outer \<^verbatim>\<open>try\<close> of \<^verbatim>\<open>analyze_tone\<close>: \<open>Inl\<close> is an exception that
  reaches the outer \<^verbatim>\<open>except Exception\<close>. The inner \<^verbatim>\<open>try\<close> catches only
  \<^verbatim>\<open>JSONDecodeError\<close>, so any other exception of \<^verbatim>\<open>json.loads\<close> and the \<^verbatim>\<open>TypeError\<close>
  of the key test pass through it.
\<close>

definition tone_try :: "'w env \<Rightarrow> string \<Rightarrow> 'w \<Rightarrow> (py_error + json) \<times> 'w" where
  "tone_try env text0 w =
     (let text = (if length text0 > 1200 then take 1200 text0 else text0) in
      case llm_invoke env (prompt text) w of
        (None, w') \<Rightarrow> (Inl LibraryError, w')
      | (Some response, w') \<Rightarrow>
          (case json_loads env (clean_response response) of
             Inl JSONDecodeError \<Rightarrow> (Inr parse_error, w')
           | Inl e \<Rightarrow> (Inl e, w')
           | Inr result \<Rightarrow>
               (case all_keys_in result [''readability'', ''tone'', ''risks''] of
                  Inl e \<Rightarrow> (Inl e, w')
                | Inr False \<Rightarrow> (Inr invalid_format, w')
                | Inr True \<Rightarrow> (Inr result, w'))))"

definition analyze_tone :: "'w env \<Rightarrow> string \<Rightarrow> 'w \<Rightarrow> json \<times> 'w" where
  "analyze_tone env text w =
     (case tone_try env text w of
        (Inl e, w') \<Rightarrow> (JNull, w')
      | (Inr result, w') \<Rightarrow> (result, w'))"

section \<open>The page pipeline (main.py)\<close>

text \<open>
  What a run holds between two pages: the cache directory, the budget manager, the
  outside world, and the log of the calls made to the collaborators so far.
\<close>

datatype call =
    CallFetch string
  | CallExtract string
  | CallCheckSeo
  | CallCheckA11y
  | CallAnalyzeTone string
  | CallRecord string
  | CallCacheSet string

record 'w state =
  cache_files :: cache_dir
  budget :: BudgetManager
  world :: 'w
  calls :: "call list"

definition log_call :: "call \<Rightarrow> 'w state \<Rightarrow> 'w state" where
  "log_call c s = s\<lparr>calls := calls s @ [c]\<rparr>"

text \<open>\<^verbatim>\<open>fetch_page\<close> catches every exception of the request and returns \<^verbatim>\<open>None\<close>.\<close>

definition fetch_page :: "'w env \<Rightarrow> string \<Rightarrow> 'w state \<Rightarrow> string option \<times> 'w state" where
  "fetch_page env url s =
     (case http_get env url (world s) of
        (response, w') \<Rightarrow> (response, log_call (CallFetch url) (s\<lparr>world := w'\<rparr>)))"

definition error_result :: "string \<Rightarrow> string \<Rightarrow> json" where
  "error_result url msg =
     JObject [(''url'', JString url), (''error'', JString msg), (''seo_rules'', JObject []),
              (''a11y_rules'', JObject []), (''tone_summary'', JNull)]"

text \<open>A rule bundle as the \<^verbatim>\<open>dict\<close> it is in the page result.\<close>

definition bundle_json :: "rule_bundle \<Rightarrow> json" where
  "bundle_json b =
     JObject
       ([(''scores'', JObject (map (\<lambda>(k, v). (k, JInt v)) (scores b))),
         (''issues'', JArray (map JString (issues b))),
         (''metrics'', JObject (map (\<lambda>(k, v). (k, JInt v)) (metrics b)))]
        @ (case overall_score b of None \<Rightarrow> [] | Some r \<Rightarrow> [(''overall_score'', JFloat r)])
        @ (case error b of None \<Rightarrow> [] | Some e \<Rightarrow> [(''error'', JString e)]))"

text \<open>\<^verbatim>\<open>results.get("overall_score", 0)\<close>.\<close>

definition overall_or_zero :: "rule_bundle \<Rightarrow> json" where
  "overall_or_zero b = (case overall_score b of None \<Rightarrow> JInt 0 | Some r \<Rightarrow> JFloat r)"

text \<open>The tone step of \<^verbatim>\<open>process_page\<close>: gated by the budget, recorded when it gave a result.\<close>

definition tone_step :: "'w env \<Rightarrow> string \<Rightarrow> bool \<Rightarrow> 'w state \<Rightarrow> json \<times> 'w state" where
  "tone_step env text use_llm s =
     (if use_llm \<and> can_make_call (budget s) ''tone_analysis'' then
        (case analyze_tone env text (world s) of
           (tone_summary, w') \<Rightarrow>
             let s1 = log_call (CallAnalyzeTone text) (s\<lparr>world := w'\<rparr>) in
             if truthy tone_summary then
               (tone_summary,
                log_call (CallRecord ''tone_analysis'')
                  (s1\<lparr>budget := record_call (budget s1) ''tone_analysis''\<rparr>))
             else (tone_summary, s1))
      else (JNull, s))"

definition compile_result :: "string \<Rightarrow> rule_bundle \<Rightarrow> rule_bundle \<Rightarrow> json \<Rightarrow> json" where
  "compile_result url seo_results a11y_results tone_summary =
     JObject
       [(''url'', JString url),
        (''seo_rules'', bundle_json seo_results),
        (''a11y_rules'', bundle_json a11y_results),
        (''tone_summary'', tone_summary),
        (''issues'', JArray (map JString (issues seo_results @ issues a11y_results))),
        (''scores'', JObject [(''seo'', overall_or_zero seo_results),
                              (''a11y'', overall_or_zero a11y_results)])]"

definition process_page :: "'w env \<Rightarrow> string \<Rightarrow> bool \<Rightarrow> 'w state \<Rightarrow> json \<times> 'w state" where
  "process_page env url use_llm s =
     (let cached = Cache_get env (cache_files s) url in
      if truthy cached then (cached, s)
      else
        (case fetch_page env url s of
           (html_opt, s1) \<Rightarrow>
             if \<not> truthy_str html_opt then (error_result url ''Failed to fetch page'', s1)
             else
               let html = (case html_opt of None \<Rightarrow> [] | Some h \<Rightarrow> h);
                   text_opt = extract_text env html;
                   s2 = log_call (CallExtract html) s1
               in if \<not> truthy_str text_opt then (error_result url ''Failed to extract text'', s2)
                  else
                    let text = (case text_opt of None \<Rightarrow> [] | Some t \<Rightarrow> t);
                        seo_results = check_seo env html text;
                        a11y_results = check_a11y env html text;
                        s3 = log_call CallCheckA11y (log_call CallCheckSeo s2)
                    in (case tone_step env text use_llm s3 of
                          (tone_summary, s4) \<Rightarrow>
                            let result = compile_result url seo_results a11y_results tone_summary;
                                s5 = log_call (CallCacheSet url)
                                       (s4\<lparr>cache_files := Cache_set env (cache_files s4) url result\<rparr>)
                            in (result, s5))))"

section \<open>The batch run and its reports (main.py)\<close>

text \<open>
  A row of the input file as \<^verbatim>\<open>csv.DictReader\<close> gives it. The first of the columns
  \<^verbatim>\<open>url\<close>, \<^verbatim>\<open>URL\<close>, \<^verbatim>\<open>Url\<close>, \<^verbatim>\<open>link\<close> that is present and not empty is the URL.
\<close>

definition row_url :: "(string \<times> string) list \<Rightarrow> string option" where
  "row_url row =
     (if truthy_str (map_of row ''url'') then map_of row ''url''
      else if truthy_str (map_of row ''URL'') then map_of row ''URL''
      else if truthy_str (map_of row ''Url'') then map_of row ''Url''
      else map_of row ''link'')"

definition load_urls_from_csv :: "(string \<times> string) list list \<Rightarrow> string list" where
  "load_urls_from_csv rows =
     concat (map (\<lambda>row. if truthy_str (row_url row)
                          then [strip (case row_url row of None \<Rightarrow> [] | Some u \<Rightarrow> u)]
                          else []) rows)"

text \<open>\<^verbatim>\<open>xs[:n]\<close>: a negative \<open>n\<close> counts from the end.\<close>

definition slice_to :: "'a list \<Rightarrow> int \<Rightarrow> 'a list" where
  "slice_to xs n = (if n \<ge> 0 then take (nat n) xs else take (length xs - nat (- n)) xs)"

text \<open>
  Consecutive calls of \<^verbatim>\<open>process_page\<close> on one cache and one budget manager, with no
  check between them: the way a caller other than \<^verbatim>\<open>audit\<close> drives the pipeline.
\<close>

fun process_pages :: "'w env \<Rightarrow> string list \<Rightarrow> bool \<Rightarrow> 'w state \<Rightarrow> json list \<times> 'w state" where
  "process_pages env [] use_llm s = ([], s)"
| "process_pages env (url # urls) use_llm s =
     (case process_page env url use_llm s of
        (result, s1) \<Rightarrow>
          (case process_pages env urls use_llm s1 of
             (results, s2) \<Rightarrow> (result # results, s2)))"

text \<open>
  The loop of \<^verbatim>\<open>audit\<close>: each result is appended, and with the language model in use
  the loop breaks once \<^verbatim>\<open>budget.can_make_call()\<close> is false.
\<close>

fun batch_loop ::
  "'w env \<Rightarrow> string list \<Rightarrow> bool \<Rightarrow> json list \<Rightarrow> 'w state \<Rightarrow> json list \<times> 'w state" where
  "batch_loop env [] no_llm results s = (results, s)"
| "batch_loop env (url # urls) no_llm results s =
     (case process_page env url (\<not> no_llm) s of
        (result, s1) \<Rightarrow>
          if \<not> no_llm \<and> \<not> can_make_call (budget s1) ''default''
          then (results @ [result], s1)
          else batch_loop env urls no_llm (results @ [result]) s1)"

text \<open>The format \<^verbatim>\<open>:.1f\<close> applied to a loaded value.\<close>

fun py_format_1f :: "'w env \<Rightarrow> json \<Rightarrow> py_error + string" where
  "py_format_1f env (JInt i) = Inr (format_1f env (of_int i))"
| "py_format_1f env (JFloat r) = Inr (format_1f env r)"
| "py_format_1f env (JBool b) = Inr (format_1f env (if b then 1 else 0))"
| "py_format_1f env (JString s) = Inl ValueError"
| "py_format_1f env _ = Inl TypeError"

text \<open>
  One row of \<^verbatim>\<open>summary.csv\<close>. The cells are evaluated from left to right, and the
  first one that raises ends the row.
\<close>

definition summary_row :: "'w env \<Rightarrow> json \<Rightarrow> py_error + json list" where
  "summary_row env result =
     (case py_getitem result ''url'' of Inl e \<Rightarrow> Inl e | Inr url \<Rightarrow>
      case py_getitem result ''scores'' of Inl e \<Rightarrow> Inl e | Inr scs \<Rightarrow>
      case py_getitem scs ''seo'' of Inl e \<Rightarrow> Inl e | Inr seo \<Rightarrow>
      case py_format_1f env seo of Inl e \<Rightarrow> Inl e | Inr seo_cell \<Rightarrow>
      case py_getitem scs ''a11y'' of Inl e \<Rightarrow> Inl e | Inr a11y \<Rightarrow>
      case py_format_1f env a11y of Inl e \<Rightarrow> Inl e | Inr a11y_cell \<Rightarrow>
      case py_getitem result ''issues'' of Inl e \<Rightarrow> Inl e | Inr iss \<Rightarrow>
      case py_len iss of Inl e \<Rightarrow> Inl e | Inr n \<Rightarrow>
        Inr [url, JString seo_cell, JString a11y_cell, JInt (int n),
             JString (case py_getitem result ''tone_summary'' of
                        Inl e \<Rightarrow> ''No''
                      | Inr tone \<Rightarrow> if truthy tone then ''Yes'' else ''No'')])"

fun write_rows :: "'w env \<Rightarrow> json list \<Rightarrow> json list list \<times> py_error option" where
  "write_rows env [] = ([], None)"
| "write_rows env (result # results) =
     (case summary_row env result of
        Inl e \<Rightarrow> ([], Some e)
      | Inr row \<Rightarrow> (case write_rows env results of (rows, err) \<Rightarrow> (row # rows, err)))"

definition csv_header :: "json list" where
  "csv_header = map JString [''URL'', ''SEO Score'', ''A11y Score'', ''Issues Count'',
                             ''Has Tone Analysis'']"

text \<open>
  The issue list of the closing summary: \<^verbatim>\<open>all_issues.extend(result["issues"])\<close> takes
  the elements of a list, the characters of a string or the keys of a dict, and
  \<^verbatim>\<open>Counter(all_issues)\<close> raises on an element that cannot be hashed.
\<close>

fun py_iter :: "json \<Rightarrow> json list" where
  "py_iter (JArray xs) = xs"
| "py_iter (JString s) = map (\<lambda>c. JString [c]) s"
| "py_iter (JObject kvs) = map (\<lambda>(k, v). JString k) kvs"
| "py_iter _ = []"

fun hashable :: "json \<Rightarrow> bool" where
  "hashable (JArray xs) = False"
| "hashable (JObject kvs) = False"
| "hashable _ = True"

definition all_issues :: "json list \<Rightarrow> json list" where
  "all_issues results =
     concat (map (\<lambda>result. case py_getitem result ''issues'' of
                              Inl e \<Rightarrow> []
                            | Inr iss \<Rightarrow> py_iter iss) results)"

text \<open>
  What a run of \<^verbatim>\<open>audit\<close> leaves: the exception that ended it, if any, the lines of
  \<^verbatim>\<open>pages.jsonl\<close> and the rows of \<^verbatim>\<open>summary.csv\<close> as far as they were written (\<open>None\<close>:
  the file was not opened), the results of the loop and the state after it.
\<close>

record 'w outcome =
  raised :: "py_error option"
  pages_jsonl :: "string list option"
  summary_csv :: "json list list option"
  page_results :: "json list"
  final :: "'w state"

text \<open>
  \<^verbatim>\<open>audit\<close>, on the rows of the input file (\<open>None\<close> when it cannot be read) and the
  cache directory and world it starts from. The options that only name directories
  and the unused batch size are left out.
\<close>

definition audit ::
  "'w env \<Rightarrow> (string \<times> string) list list option \<Rightarrow> int \<Rightarrow> bool \<Rightarrow> int \<Rightarrow> bool
     \<Rightarrow> cache_dir \<Rightarrow> 'w \<Rightarrow> 'w outcome" where
  "audit env input_csv max_pages no_llm max_llm_calls clear_cache files w =
     (let s0 = \<lparr>cache_files = (if clear_cache then fst (snd (Cache_clear files)) else files),
                 budget = BudgetManager_init max_llm_calls, world = w, calls = []\<rparr>
      in case input_csv of
           None \<Rightarrow> \<lparr>raised = Some (Exit 1), pages_jsonl = None, summary_csv = None,
                     page_results = [], final = s0\<rparr>
         | Some rows \<Rightarrow>
             (case batch_loop env (slice_to (load_urls_from_csv rows) max_pages) no_llm [] s0 of
                (results, s) \<Rightarrow>
                  let jsonl = map (\<lambda>result. json_dumps env result @ [CHR 0x0A]) results in
                  (case write_rows env results of
                     (rows_written, err) \<Rightarrow>
                       \<lparr>raised =
                          (if err \<noteq> None then err
                           else if results = [] then Some ZeroDivisionError
                           else if \<not> list_all hashable (all_issues results) then Some TypeError
                           else None),
                        pages_jsonl = Some jsonl,
                        summary_csv = Some (csv_header # rows_written),
                        page_results = results,
                        final = s\<rparr>)))"

section \<open>Test doubles\<close>

text \<open>
  Stand-ins for the collaborators, for running the model on concrete pages: a codec
  that knows three documents, a digest that is the key itself, a site that answers
  every request with \<open>page\<close>, an extractor that gives \<open>text\<close>, a parser that finds no
  element, and a language model that answers \<open>reply\<close>. The world is trivial.
\<close>

definition test_documents :: "(string \<times> json) list" where
  "test_documents =
     [(''null'', JNull), (''{}'', JObject []),
      (''{url: u}'', JObject [(''url'', JString ''u'')])]"

definition test_dump :: "json \<Rightarrow> string" where
  "test_dump data =
     (case List.find (\<lambda>(doc, v). v = data) test_documents of
        None \<Rightarrow> ''?''
      | Some (doc, v) \<Rightarrow> doc)"

definition test_env :: "string option \<Rightarrow> string option \<Rightarrow> string option \<Rightarrow> unit env" where
  "test_env page text reply =
     \<lparr>sha256_hex = (\<lambda>key. key),
      json_dump = test_dump,
      json_dumps = test_dump,
      json_loads = (\<lambda>doc. case map_of test_documents doc of
                             None \<Rightarrow> Inl JSONDecodeError
                           | Some data \<Rightarrow> Inr data),
      http_get = (\<lambda>url w. (page, w)),
      readability = (\<lambda>html. text),
      html_parser = (\<lambda>html. Inr []),
      llm_invoke = (\<lambda>p w. (reply, w)),
      format_1f = (\<lambda>r. str_int (floor r) @ ''.'' @ str_int (floor (r * 10) mod 10))\<rparr>"

definition start :: "cache_dir \<Rightarrow> int \<Rightarrow> unit state" where
  "start files n =
     \<lparr>cache_files = files, budget = BudgetManager_init n, world = (), calls = []\<rparr>"

section \<open>Reading the call log\<close>

text \<open>How often \<^verbatim>\<open>record_call\<close> was called with a call type, and the analyzer calls.\<close>

definition recorded :: "'w state \<Rightarrow> string \<Rightarrow> nat" where
  "recorded s call_type = count_list (calls s) (CallRecord call_type)"

fun is_tone_call :: "call \<Rightarrow> bool" where
  "is_tone_call (CallAnalyzeTone text) = True"
| "is_tone_call _ = False"

definition tone_calls :: "'w state \<Rightarrow> call list" where
  "tone_calls s = filter is_tone_call (calls s)"

text \<open>The tone summary a page result carries (\<open>JNull\<close> when it has none).\<close>

definition tone_of :: "json \<Rightarrow> json" where
  "tone_of result = (case py_getitem result ''tone_summary'' of Inl e \<Rightarrow> JNull | Inr t \<Rightarrow> t)"


section \<open>The cache\<close>

lemma endswith_append: "endswith (xs @ p) p"
  by (simp add: endswith_def)

lemma unlink_filter: "unlink name files = filter (\<lambda>(n, c). n \<noteq> name) files"
  by (simp add: unlink_def AList.delete_eq case_prod_unfold eq_commute)

lemma clear_fold:
  "fold (\<lambda>cache_file (fs, count). (unlink cache_file fs, count + 1)) names (fs0, c0)
     = (filter (\<lambda>(n, c). n \<notin> set names) fs0, c0 + int (length names))"
proof (induction names arbitrary: fs0 c0)
  case Nil
  then show ?case by simp
next
  case (Cons a names)
  have "filter (\<lambda>(n, c). n \<notin> set names) (filter (\<lambda>(n, c). n \<noteq> a) fs0)
          = filter (\<lambda>(n, c). n \<notin> set (a # names)) fs0"
    by (induction fs0) auto
  with Cons show ?case by (simp add: unlink_filter)
qed

lemma clear_loop_eq:
  "clear_loop files
     = (filter (\<lambda>(n, c). \<not> endswith n ''.json'') files, int (length (glob_json files)))"
proof -
  have "(n, c) \<in> set files \<Longrightarrow> n \<in> set (glob_json files) \<longleftrightarrow> endswith n ''.json''"
    for n c
    by (force simp: glob_json_def)
  then have "filter (\<lambda>(n, c). n \<notin> set (glob_json files)) files
          = filter (\<lambda>(n, c). \<not> endswith n ''.json'') files"
    by (intro filter_cong) auto
  then show ?thesis by (simp add: clear_loop_def clear_fold)
qed

lemma glob_json_cleared:
  "glob_json (filter (\<lambda>(n, c). \<not> endswith n ''.json'') files) = []"
  by (induction files) (auto simp: glob_json_def)

lemma Cache_get_cleared:
  "Cache_get env (filter (\<lambda>(n, c). \<not> endswith n ''.json'') files) key = JNull"
proof -
  have "map_of (filter (\<lambda>(n, c). \<not> endswith n ''.json'') files) (get_cache_path env key) = None"
    by (auto simp: map_of_eq_None_iff get_cache_path_def endswith_append)
  then show ?thesis by (simp add: Cache_get_def)
qed


text \<open>
  Claim C7, as the code has it. \<^verbatim>\<open>Cache.clear\<close> removes every \<^verbatim>\<open>*.json\<close> file of the
  cache directory and leaves the other files: afterwards the directory lists no entry
  and \<^verbatim>\<open>get\<close> finds nothing under any key. The call returns \<^verbatim>\<open>None\<close>; the number of
  files removed is only written to the log line.
\<close>

theorem clear_returns_nothing:
  "Cache_clear files =
     (JNull, filter (\<lambda>(name, content). \<not> endswith name ''.json'') files,
      ''Cleared '' @ str_int (int (length (glob_json files))) @ '' cached files'')
   \<and> glob_json (fst (snd (Cache_clear files))) = []
   \<and> Cache_get env (fst (snd (Cache_clear files))) key = JNull"
  by (simp add: Cache_clear_def clear_loop_eq glob_json_cleared Cache_get_cleared)

theorem clear_returns_nothing_witness:
  "Cache_clear [(''a.json'', ''{}''), (''notes.txt'', ''x''), (''b.json'', ''{}'')] =
     (JNull, [(''notes.txt'', ''x'')], ''Cleared 2 cached files'')
   \<and> Cache_get (test_env None None None) [(''notes.txt'', ''x'')] ''a'' = JNull"
proof -
  have e: "Cache_clear [(''a.json'', ''{}''), (''notes.txt'', ''x''), (''b.json'', ''{}'')] =
     (JNull, [(''notes.txt'', ''x'')], ''Cleared 2 cached files'')"
    by code_simp
  have "Cache_get (test_env None None None)
          (fst (snd (Cache_clear [(''a.json'', ''{}''), (''notes.txt'', ''x''), (''b.json'', ''{}'')])))
          ''a'' = JNull"
    by (rule clear_returns_nothing [THEN conjunct2, THEN conjunct2])
  with e show ?thesis by simp
qed

text \<open>
  Claim C7 as stated fails: with one entry in the cache, \<^verbatim>\<open>clear\<close> does not return the
  count 1.
\<close>

theorem clear_return_counterexample:
  "fst (Cache_clear [(''a.json'', ''{}'')]) \<noteq> JInt 1"
  by (simp add: Cache_clear_def clear_loop_def glob_json_def endswith_def unlink_def)

text \<open>
  Claim C5. A result that the JSON codec reads back as it was written comes back from
  the cache unchanged: \<^verbatim>\<open>get\<close> after \<^verbatim>\<open>set\<close> under the same key returns it, whatever
  the directory held before.
\<close>

theorem cache_round_trip:
  assumes "json_loads env (json_dump env r) = Inr r"
  shows "Cache_get env (Cache_set env files url r) url = r"
  using assms by (simp add: Cache_get_def Cache_set_def update_conv')

theorem cache_round_trip_witness:
  "json_loads (test_env None None None)
     (json_dump (test_env None None None) (JObject [(''url'', JString ''u'')]))
     = Inr (JObject [(''url'', JString ''u'')])
   \<and> Cache_get (test_env None None None)
       (Cache_set (test_env None None None) [(''u.json'', ''{}'')] ''u''
          (JObject [(''url'', JString ''u'')])) ''u''
     = JObject [(''url'', JString ''u'')]"
proof -
  have h: "json_loads (test_env None None None)
     (json_dump (test_env None None None) (JObject [(''url'', JString ''u'')]))
     = Inr (JObject [(''url'', JString ''u'')])"
    by (simp add: test_env_def test_dump_def test_documents_def)
  from cache_round_trip [OF h] h show ?thesis by simp
qed

section \<open>One page\<close>

lemma page_result_truthy:
  "truthy (error_result url msg)"
  "truthy (compile_result url seo_results a11y_results tone_summary)"
  by (simp_all add: error_result_def compile_result_def)

text \<open>
  Claim C3. When \<^verbatim>\<open>cache.get(u)\<close> returns a value \<open>r\<close> that the pipeline takes for a
  hit (\<^verbatim>\<open>if cached:\<close>; every page result is one, see \<open>page_result_truthy\<close>),
  \<^verbatim>\<open>process_page\<close> returns \<open>r\<close> and the state is the one it started from: the cache
  directory, the budget counters, the outside world and the call log are unchanged,
  so nothing was fetched, extracted, scored, analyzed or recorded, whatever \<open>use_llm\<close>
  is and whether or not \<open>r\<close> has a tone summary.
\<close>

theorem cache_hit_returns_stored:
  assumes "Cache_get env (cache_files s) u = r" and "truthy r"
  shows "process_page env u use_llm s = (r, s)"
  using assms by (simp add: process_page_def)

theorem cache_hit_returns_stored_witness:
  "Cache_get (test_env (Some ''<html>'') (Some ''text'') (Some ''{}''))
      (cache_files (start [(''u.json'', ''{url: u}'')] 3)) ''u''
     = JObject [(''url'', JString ''u'')]
   \<and> truthy (JObject [(''url'', JString ''u'')])
   \<and> process_page (test_env (Some ''<html>'') (Some ''text'') (Some ''{}'')) ''u'' True
        (start [(''u.json'', ''{url: u}'')] 3)
     = (JObject [(''url'', JString ''u'')], start [(''u.json'', ''{url: u}'')] 3)"
proof -
  have h: "Cache_get (test_env (Some ''<html>'') (Some ''text'') (Some ''{}''))
      (cache_files (start [(''u.json'', ''{url: u}'')] 3)) ''u''
     = JObject [(''url'', JString ''u'')]"
    by (simp add: Cache_get_def get_cache_path_def get_hash_def test_env_def start_def
        test_documents_def)
  have t: "truthy (JObject [(''url'', JString ''u'')])" by simp
  from cache_hit_returns_stored [OF h t] h t show ?thesis by simp
qed

lemma fetch_page_cache: "cache_files (snd (fetch_page env u s)) = cache_files s"
  by (simp add: fetch_page_def log_call_def split: prod.splits)

text \<open>
  Claim C4. For a URL that is not in the cache, when the fetch fails (\<^verbatim>\<open>None\<close> or an
  empty page) or the extraction fails (\<^verbatim>\<open>None\<close> or an empty text), \<^verbatim>\<open>process_page\<close>
  returns the dict with the URL, the \<^verbatim>\<open>error\<close> field \<^verbatim>\<open>Failed to fetch page\<close> or
  \<^verbatim>\<open>Failed to extract text\<close> respectively, empty rule dicts and no tone summary, and
  it leaves the cache directory as it was: \<^verbatim>\<open>cache.get(u)\<close> is still absent.
\<close>

theorem failures_not_cached:
  assumes miss: "Cache_get env (cache_files s) u = JNull"
    and fails:
      "\<not> truthy_str (fst (fetch_page env u s)) \<and> msg = ''Failed to fetch page''
       \<or> (\<exists>html. fst (fetch_page env u s) = Some html \<and> html \<noteq> []
             \<and> \<not> truthy_str (extract_text env html))
         \<and> msg = ''Failed to extract text''"
  shows "fst (process_page env u use_llm s) =
           JObject [(''url'', JString u), (''error'', JString msg), (''seo_rules'', JObject []),
                    (''a11y_rules'', JObject []), (''tone_summary'', JNull)]
       \<and> py_getitem (fst (process_page env u use_llm s)) ''error'' = Inr (JString msg)
       \<and> py_getitem (fst (process_page env u use_llm s)) ''error'' =
           Inr (JString (if truthy_str (fst (fetch_page env u s))
                         then ''Failed to extract text'' else ''Failed to fetch page''))
       \<and> fst (process_page env u use_llm s) = error_result u msg
       \<and> cache_files (snd (process_page env u use_llm s)) = cache_files s
       \<and> Cache_get env (cache_files (snd (process_page env u use_llm s))) u = JNull"
proof -
  obtain r s1 where f: "fetch_page env u s = (r, s1)" by (cases "fetch_page env u s")
  with fetch_page_cache [of env u s] have c1: "cache_files s1 = cache_files s" by simp
  from fails show ?thesis
  proof
    assume "\<not> truthy_str (fst (fetch_page env u s)) \<and> msg = ''Failed to fetch page''"
    with miss f c1 show ?thesis by (simp add: process_page_def error_result_def)
  next
    assume "(\<exists>html. fst (fetch_page env u s) = Some html \<and> html \<noteq> []
             \<and> \<not> truthy_str (extract_text env html))
         \<and> msg = ''Failed to extract text''"
    with miss f c1 show ?thesis by (auto simp: process_page_def log_call_def error_result_def)
  qed
qed

theorem failures_not_cached_witness:
  "py_getitem (fst (process_page (test_env None None None) ''u'' True (start [] 3))) ''error''
     = Inr (JString ''Failed to fetch page'')
   \<and> Cache_get (test_env None None None)
       (cache_files (snd (process_page (test_env None None None) ''u'' True (start [] 3)))) ''u''
     = JNull
   \<and> py_getitem (fst (process_page (test_env (Some ''<html>'') None None) ''u'' True
        (start [] 3))) ''error''
     = Inr (JString ''Failed to extract text'')
   \<and> Cache_get (test_env (Some ''<html>'') None None)
       (cache_files (snd (process_page (test_env (Some ''<html>'') None None) ''u'' True
          (start [] 3)))) ''u''
     = JNull"
proof -
  have m1: "Cache_get (test_env None None None) (cache_files (start [] 3)) ''u'' = JNull"
    by (simp add: Cache_get_def start_def)
  have f1: "\<not> truthy_str (fst (fetch_page (test_env None None None) ''u'' (start [] 3)))
              \<and> ''Failed to fetch page'' = ''Failed to fetch page''
            \<or> (\<exists>html. fst (fetch_page (test_env None None None) ''u'' (start [] 3)) = Some html
                  \<and> html \<noteq> [] \<and> \<not> truthy_str (extract_text (test_env None None None) html))
              \<and> ''Failed to fetch page'' = ''Failed to extract text''"
    by (simp add: fetch_page_def test_env_def)
  have m2: "Cache_get (test_env (Some ''<html>'') None None) (cache_files (start [] 3)) ''u'' = JNull"
    by (simp add: Cache_get_def start_def)
  have f2: "\<not> truthy_str (fst (fetch_page (test_env (Some ''<html>'') None None) ''u'' (start [] 3)))
              \<and> ''Failed to extract text'' = ''Failed to fetch page''
            \<or> (\<exists>html. fst (fetch_page (test_env (Some ''<html>'') None None) ''u'' (start [] 3))
                    = Some html
                  \<and> html \<noteq> []
                  \<and> \<not> truthy_str (extract_text (test_env (Some ''<html>'') None None) html))
              \<and> ''Failed to extract text'' = ''Failed to extract text''"
    by (simp add: fetch_page_def test_env_def extract_text_def)
  from failures_not_cached [OF m1 f1, of True] failures_not_cached [OF m2 f2, of True]
  show ?thesis by blast
qed

section \<open>The rule sets on an empty page\<close>

text \<open>
  Claim C6, as the code has it. On a page with no element and an empty text the image
  and link checks give 100, the title, meta description, H1 and canonical checks give
  0, the word count gives 25 (its score below 300 words), and the heading check gives
  50 with the issue \<^verbatim>\<open>No headings found\<close>: the absence of headings is penalized.
\<close>

theorem empty_page_scores:
  assumes "html_parser env html = Inr []"
  shows "scores (check_seo env html []) =
           [(''title'', 0), (''meta_description'', 0), (''h1'', 0), (''canonical'', 0),
            (''word_count'', 25)]
       \<and> scores (check_a11y env html []) =
           [(''image_alts'', 100), (''heading_hierarchy'', 50), (''link_text'', 100)]
       \<and> issues (check_a11y env html []) = [''No headings found'']"
  using assms
  by (simp add: check_seo_def check_a11y_def check_title_tag_def check_meta_description_def
      check_h1_tags_def check_canonical_def check_word_count_def check_image_alts_def
      check_heading_hierarchy_def check_link_text_def find_all_def find_tag_def find_attr_def
      heading_levels_def py_split_def Let_def)

theorem empty_page_scores_witness:
  "html_parser (test_env None None None) [] = Inr []
   \<and> scores (check_seo (test_env None None None) [] []) =
           [(''title'', 0), (''meta_description'', 0), (''h1'', 0), (''canonical'', 0),
            (''word_count'', 25)]
   \<and> scores (check_a11y (test_env None None None) [] []) =
           [(''image_alts'', 100), (''heading_hierarchy'', 50), (''link_text'', 100)]"
proof -
  have h: "html_parser (test_env None None None) [] = Inr []"
    by (simp add: test_env_def)
  from empty_page_scores [OF h] h show ?thesis by simp
qed

text \<open>
  Claim C6 as stated fails: on the empty page the heading sub-score of \<^verbatim>\<open>check_a11y\<close>
  is not 100.
\<close>

theorem empty_page_heading_counterexample:
  "map_of (scores (check_a11y (test_env None None None) [] [])) ''heading_hierarchy'' \<noteq> Some 100"
  by (simp add: check_a11y_def check_image_alts_def check_heading_hierarchy_def
      check_link_text_def find_all_def heading_levels_def test_env_def Let_def)

section \<open>The reports\<close>

lemma summary_row_error_result:
  "summary_row env (error_result url msg) = Inl (KeyError ''scores'')"
  by (simp add: summary_row_def error_result_def)

text \<open>
  Claim C2 fails on the code. With one URL whose fetch fails, the only result is the
  error result, which has no \<^verbatim>\<open>scores\<close> key: \<^verbatim>\<open>pages.jsonl\<close> is written, then the first
  row of \<^verbatim>\<open>summary.csv\<close> raises \<^verbatim>\<open>KeyError\<close> and the run ends with the header as the
  only line of the summary.
\<close>

theorem audit_raises_on_failed_page:
  "raised (audit (test_env None None None) (Some [[(''url'', ''http://x'')]])
             200 False 200 False [] ())
     = Some (KeyError ''scores'')
   \<and> summary_csv (audit (test_env None None None) (Some [[(''url'', ''http://x'')]])
             200 False 200 False [] ())
     = Some [csv_header]
   \<and> page_results (audit (test_env None None None) (Some [[(''url'', ''http://x'')]])
             200 False 200 False [] ())
     = [error_result ''http://x'' ''Failed to fetch page'']"
proof -
  have u: "slice_to (load_urls_from_csv [[(''url'', ''http://x'')]]) 200 = [''http://x'']"
    by (simp add: slice_to_def load_urls_from_csv_def row_url_def strip_def is_space_def)
  have p: "process_page (test_env None None None) ''http://x'' True
             \<lparr>cache_files = [],
                budget = \<lparr>max_calls = 200, calls_made = 0, calls_by_type = []\<rparr>,
                world = (), calls = []\<rparr>
           = (error_result ''http://x'' ''Failed to fetch page'',
              \<lparr>cache_files = [],
                 budget = \<lparr>max_calls = 200, calls_made = 0, calls_by_type = []\<rparr>,
                 world = (), calls = [CallFetch ''http://x'']\<rparr>)"
    by (simp add: process_page_def Cache_get_def fetch_page_def log_call_def test_env_def)
  show ?thesis
    by (simp add: audit_def u p summary_row_error_result can_make_call_def BudgetManager_init_def)
qed

section \<open>The budget along one page\<close>

subsection \<open>What the analyzer returns\<close>

lemma py_contains_truthy:
  "py_contains result key = Inr True \<Longrightarrow> key \<noteq> [] \<Longrightarrow> truthy result"
  by (cases result) (auto split: if_splits)

lemma all_keys_in_truthy:
  "all_keys_in result (key # keys) = Inr True \<Longrightarrow> key \<noteq> [] \<Longrightarrow> truthy result"
  by (auto split: sum.splits bool.splits if_splits dest: py_contains_truthy)

lemma tone_try_truthy: "fst (tone_try env text w) = Inr t \<Longrightarrow> truthy t"
  by (auto simp: tone_try_def Let_def parse_error_def invalid_format_def
      split: prod.splits option.splits sum.splits py_error.splits bool.splits if_splits
      intro: py_contains_truthy [where key = "''readability''"])

lemma analyze_tone_try:
  "fst (analyze_tone env text w) =
     (case fst (tone_try env text w) of Inl e \<Rightarrow> JNull | Inr t \<Rightarrow> t)"
  by (simp add: analyze_tone_def split: prod.splits sum.splits)

lemma analyze_tone_truthy:
  "truthy (fst (analyze_tone env text w)) \<longleftrightarrow> fst (analyze_tone env text w) \<noteq> JNull"
  by (cases "fst (tone_try env text w)") (auto simp: analyze_tone_try dest: tone_try_truthy)

lemma analyze_tone_null:
  "fst (analyze_tone env text w) = JNull \<longleftrightarrow> isl (fst (tone_try env text w))"
  by (cases "fst (tone_try env text w)") (auto simp: analyze_tone_try dest: tone_try_truthy)

subsection \<open>The state after a step\<close>

lemma log_call_simps [simp]:
  "cache_files (log_call c s) = cache_files s"
  "budget (log_call c s) = budget s"
  "world (log_call c s) = world s"
  "calls (log_call c s) = calls s @ [c]"
  by (simp_all add: log_call_def)

lemma recorded_simps [simp]:
  "recorded (log_call c s) ct = (if c = CallRecord ct then Suc (recorded s ct) else recorded s ct)"
  "recorded (s\<lparr>world := w\<rparr>) ct = recorded s ct"
  "recorded (s\<lparr>budget := b\<rparr>) ct = recorded s ct"
  "recorded (s\<lparr>cache_files := f\<rparr>) ct = recorded s ct"
  by (simp_all add: recorded_def log_call_def)

lemma tone_calls_simps [simp]:
  "tone_calls (log_call c s) = (if is_tone_call c then tone_calls s @ [c] else tone_calls s)"
  "tone_calls (s\<lparr>world := w\<rparr>) = tone_calls s"
  "tone_calls (s\<lparr>budget := b\<rparr>) = tone_calls s"
  "tone_calls (s\<lparr>cache_files := f\<rparr>) = tone_calls s"
  by (simp_all add: tone_calls_def log_call_def)

lemma fetch_page_simps:
  "fst (fetch_page env u s) = fst (http_get env u (world s))"
  "cache_files (snd (fetch_page env u s)) = cache_files s"
  "budget (snd (fetch_page env u s)) = budget s"
  "world (snd (fetch_page env u s)) = snd (http_get env u (world s))"
  "recorded (snd (fetch_page env u s)) ct = recorded s ct"
  "tone_calls (snd (fetch_page env u s)) = tone_calls s"
  by (simp_all add: fetch_page_def split: prod.splits)

subsection \<open>The tone step\<close>

lemma tone_step_simps:
  "fst (tone_step env text l s) =
     (if l \<and> can_make_call (budget s) ''tone_analysis''
      then fst (analyze_tone env text (world s)) else JNull)"
  "cache_files (snd (tone_step env text l s)) = cache_files s"
  "budget (snd (tone_step env text l s)) =
     (if l \<and> can_make_call (budget s) ''tone_analysis''
         \<and> truthy (fst (analyze_tone env text (world s)))
      then record_call (budget s) ''tone_analysis'' else budget s)"
  "recorded (snd (tone_step env text l s)) ''tone_analysis'' =
     (if l \<and> can_make_call (budget s) ''tone_analysis''
         \<and> truthy (fst (analyze_tone env text (world s)))
      then Suc (recorded s ''tone_analysis'') else recorded s ''tone_analysis'')"
  "tone_calls (snd (tone_step env text l s)) =
     (if l \<and> can_make_call (budget s) ''tone_analysis''
      then tone_calls s @ [CallAnalyzeTone text] else tone_calls s)"
  by (simp_all add: tone_step_def Let_def split: prod.splits)

subsection \<open>The paths of a page\<close>

lemma process_page_miss:
  assumes "\<not> truthy (Cache_get env (cache_files s) u)"
    and "\<not> truthy_str (fst (http_get env u (world s)))
         \<or> (\<exists>html. fst (http_get env u (world s)) = Some html
              \<and> \<not> truthy_str (extract_text env html))"
  shows "budget (snd (process_page env u l s)) = budget s"
    and "recorded (snd (process_page env u l s)) ct = recorded s ct"
    and "tone_calls (snd (process_page env u l s)) = tone_calls s"
  using assms
  by (auto simp: process_page_def Let_def case_prod_unfold fetch_page_simps)

lemma process_page_hit:
  assumes "truthy (Cache_get env (cache_files s) u)"
  shows "process_page env u l s = (Cache_get env (cache_files s) u, s)"
  using assms by (simp add: process_page_def)

lemma process_page_full:
  assumes "\<not> truthy (Cache_get env (cache_files s) u)"
    and "http_get env u (world s) = (Some html, w1)" and "html \<noteq> []"
    and "extract_text env html = Some text" and "text \<noteq> []"
  shows "fst (process_page env u l s) =
           compile_result u (check_seo env html text) (check_a11y env html text)
             (if l \<and> can_make_call (budget s) ''tone_analysis''
              then fst (analyze_tone env text w1) else JNull)"
    and "budget (snd (process_page env u l s)) =
           (if l \<and> can_make_call (budget s) ''tone_analysis''
               \<and> truthy (fst (analyze_tone env text w1))
            then record_call (budget s) ''tone_analysis'' else budget s)"
    and "recorded (snd (process_page env u l s)) ''tone_analysis'' =
           (if l \<and> can_make_call (budget s) ''tone_analysis''
               \<and> truthy (fst (analyze_tone env text w1))
            then Suc (recorded s ''tone_analysis'') else recorded s ''tone_analysis'')"
    and "tone_calls (snd (process_page env u l s)) =
           (if l \<and> can_make_call (budget s) ''tone_analysis''
            then tone_calls s @ [CallAnalyzeTone text] else tone_calls s)"
    and "cache_files (snd (process_page env u l s)) =
           Cache_set env (cache_files s) u (fst (process_page env u l s))"
  using assms
  by (simp_all add: process_page_def Let_def case_prod_unfold fetch_page_simps tone_step_simps)

text \<open>Every path of a page either leaves the budget alone or records one gated call.\<close>

lemma process_page_budget:
  "budget (snd (process_page env u l s)) = budget s
     \<and> recorded (snd (process_page env u l s)) ''tone_analysis'' = recorded s ''tone_analysis''
   \<or> can_make_call (budget s) ''tone_analysis''
     \<and> budget (snd (process_page env u l s)) = record_call (budget s) ''tone_analysis''
     \<and> recorded (snd (process_page env u l s)) ''tone_analysis''
         = Suc (recorded s ''tone_analysis'')"
proof (cases "truthy (Cache_get env (cache_files s) u)")
  case True
  then show ?thesis by (simp add: process_page_hit)
next
  case miss: False
  show ?thesis
  proof (cases "http_get env u (world s)")
    case (Pair r w1)
    show ?thesis
    proof (cases "truthy_str r")
      case False
      with miss Pair show ?thesis by (simp add: process_page_miss)
    next
      case True
      then obtain html where r: "r = Some html" "html \<noteq> []" by (cases r) auto
      show ?thesis
      proof (cases "truthy_str (extract_text env html)")
        case False
        with miss Pair r show ?thesis by (simp add: process_page_miss)
      next
        case True
        then obtain tx where t: "extract_text env html = Some tx" "tx \<noteq> []"
          by (cases "extract_text env html") auto
        from Pair r have g: "http_get env u (world s) = (Some html, w1)" by simp
        show ?thesis
          by (simp add: process_page_full [OF miss g r(2) t])
      qed
    qed
  qed
qed

lemma process_page_closed:
  assumes "\<not> can_make_call (budget s) ''tone_analysis''"
  shows "budget (snd (process_page env u l s)) = budget s"
    and "tone_calls (snd (process_page env u l s)) = tone_calls s"
proof -
  have "budget (snd (process_page env u l s)) = budget s
      \<and> tone_calls (snd (process_page env u l s)) = tone_calls s"
  proof (cases "truthy (Cache_get env (cache_files s) u)")
    case True
    then show ?thesis by (simp add: process_page_hit)
  next
    case miss: False
    show ?thesis
    proof (cases "http_get env u (world s)")
      case (Pair r w1)
      show ?thesis
      proof (cases "truthy_str r")
        case False
        with miss Pair show ?thesis by (simp add: process_page_miss)
      next
        case True
        then obtain html where r: "r = Some html" "html \<noteq> []" by (cases r) auto
        show ?thesis
        proof (cases "truthy_str (extract_text env html)")
          case False
          with miss Pair r show ?thesis by (simp add: process_page_miss)
        next
          case True
          then obtain tx where t: "extract_text env html = Some tx" "tx \<noteq> []"
            by (cases "extract_text env html") auto
          from Pair r have g: "http_get env u (world s) = (Some html, w1)" by simp
          from assms show ?thesis
            by (simp add: process_page_full [OF miss g r(2) t])
        qed
      qed
    qed
  qed
  then show "budget (snd (process_page env u l s)) = budget s"
    and "tone_calls (snd (process_page env u l s)) = tone_calls s" by simp_all
qed

section \<open>The budget along a run\<close>

lemma record_call_simps [simp]:
  "max_calls (record_call b t) = max_calls b"
  "calls_made (record_call b t) = calls_made b + 1"
  by (simp_all add: record_call_def)

lemma process_page_invariant:
  assumes "calls_made (budget s) \<le> max_calls (budget s)"
    and "calls_made (budget s) = int (recorded s ''tone_analysis'')"
  shows "max_calls (budget (snd (process_page env u l s))) = max_calls (budget s)
       \<and> calls_made (budget (snd (process_page env u l s))) \<le> max_calls (budget s)
       \<and> calls_made (budget (snd (process_page env u l s)))
           = int (recorded (snd (process_page env u l s)) ''tone_analysis'')"
  using process_page_budget [of env u l s] assms
  by (auto simp: can_make_call_def split: if_splits)

lemma process_pages_invariant:
  assumes "calls_made (budget s) \<le> max_calls (budget s)"
    and "calls_made (budget s) = int (recorded s ''tone_analysis'')"
  shows "max_calls (budget (snd (process_pages env urls l s))) = max_calls (budget s)
       \<and> calls_made (budget (snd (process_pages env urls l s))) \<le> max_calls (budget s)
       \<and> calls_made (budget (snd (process_pages env urls l s)))
           = int (recorded (snd (process_pages env urls l s)) ''tone_analysis'')"
  using assms
proof (induction urls arbitrary: s)
  case Nil
  then show ?case by simp
next
  case (Cons u urls)
  from process_page_invariant [OF Cons.prems, of env u l]
  have "max_calls (budget (snd (process_pages env urls l (snd (process_page env u l s)))))
          = max_calls (budget s)
      \<and> calls_made (budget (snd (process_pages env urls l (snd (process_page env u l s)))))
          \<le> max_calls (budget s)
      \<and> calls_made (budget (snd (process_pages env urls l (snd (process_page env u l s)))))
          = int (recorded (snd (process_pages env urls l (snd (process_page env u l s))))
              ''tone_analysis'')"
    using Cons.IH [of "snd (process_page env u l s)"] by simp
  then show ?case by (simp add: case_prod_unfold)
qed

lemma batch_loop_invariant:
  assumes "calls_made (budget s) \<le> max_calls (budget s)"
    and "calls_made (budget s) = int (recorded s ''tone_analysis'')"
  shows "max_calls (budget (snd (batch_loop env urls no_llm results s))) = max_calls (budget s)
       \<and> calls_made (budget (snd (batch_loop env urls no_llm results s))) \<le> max_calls (budget s)
       \<and> calls_made (budget (snd (batch_loop env urls no_llm results s)))
           = int (recorded (snd (batch_loop env urls no_llm results s)) ''tone_analysis'')"
  using assms
proof (induction urls arbitrary: s results)
  case Nil
  then show ?case by simp
next
  case (Cons u urls)
  note step = process_page_invariant [OF Cons.prems, of env u "\<not> no_llm"]
  show ?case
  proof (cases "\<not> no_llm \<and> \<not> can_make_call (budget (snd (process_page env u (\<not> no_llm) s))) ''default''")
    case True
    with step show ?thesis by (auto simp: case_prod_unfold)
  next
    case False
    have "max_calls (budget (snd (batch_loop env urls no_llm
              (results @ [fst (process_page env u (\<not> no_llm) s)])
              (snd (process_page env u (\<not> no_llm) s)))))
          = max_calls (budget s)
      \<and> calls_made (budget (snd (batch_loop env urls no_llm
              (results @ [fst (process_page env u (\<not> no_llm) s)])
              (snd (process_page env u (\<not> no_llm) s)))))
          \<le> max_calls (budget s)
      \<and> calls_made (budget (snd (batch_loop env urls no_llm
              (results @ [fst (process_page env u (\<not> no_llm) s)])
              (snd (process_page env u (\<not> no_llm) s)))))
          = int (recorded (snd (batch_loop env urls no_llm
              (results @ [fst (process_page env u (\<not> no_llm) s)])
              (snd (process_page env u (\<not> no_llm) s)))) ''tone_analysis'')"
      using Cons.IH [of "snd (process_page env u (\<not> no_llm) s)"
          "results @ [fst (process_page env u (\<not> no_llm) s)]"] step by simp
    with False show ?thesis by (auto simp: case_prod_unfold)
  qed
qed

text \<open>
  Claim C1. A run that starts with \<^verbatim>\<open>BudgetManager(max_calls = N)\<close>, \<open>N \<ge> 0\<close>, and an
  empty call log never records more than \<open>N\<close> tone analyses, and \<^verbatim>\<open>calls_made\<close> is the
  number of \<^verbatim>\<open>record_call("tone_analysis")\<close> calls: for every list of URLs driven
  through \<^verbatim>\<open>process_page\<close> one after the other, and for the loop of \<^verbatim>\<open>audit\<close>. It
  holds for every behaviour of the collaborators and with or without cache hits.
\<close>

theorem pipeline_respects_budget:
  assumes "0 \<le> N" and "budget s = BudgetManager_init N" and "calls s = []"
  shows "int (recorded (snd (process_pages env urls use_llm s)) ''tone_analysis'') \<le> N
       \<and> calls_made (budget (snd (process_pages env urls use_llm s)))
           = int (recorded (snd (process_pages env urls use_llm s)) ''tone_analysis'')
       \<and> int (recorded (snd (batch_loop env urls no_llm [] s)) ''tone_analysis'') \<le> N
       \<and> calls_made (budget (snd (batch_loop env urls no_llm [] s)))
           = int (recorded (snd (batch_loop env urls no_llm [] s)) ''tone_analysis'')"
proof -
  from assms have a: "calls_made (budget s) \<le> max_calls (budget s)"
    and b: "calls_made (budget s) = int (recorded s ''tone_analysis'')"
    and m: "max_calls (budget s) = N"
    by (simp_all add: BudgetManager_init_def recorded_def)
  from process_pages_invariant [OF a b, of env urls use_llm]
    batch_loop_invariant [OF a b, of env urls no_llm "[]"] m
  show ?thesis by simp
qed

theorem pipeline_respects_budget_witness:
  "(0::int) \<le> 1
   \<and> budget (start [] 1) = BudgetManager_init 1
   \<and> calls (start [] 1) = []
   \<and> int (recorded (snd (process_pages (test_env (Some ''<html>'') (Some ''Short content'')
              (Some ''no json'')) [''a'', ''b'', ''c''] True (start [] 1))) ''tone_analysis'') \<le> 1
   \<and> calls_made (budget (snd (batch_loop (test_env (Some ''<html>'') (Some ''Short content'')
              (Some ''no json'')) [''a'', ''b'', ''c''] False [] (start [] 1))))
       = int (recorded (snd (batch_loop (test_env (Some ''<html>'') (Some ''Short content'')
              (Some ''no json'')) [''a'', ''b'', ''c''] False [] (start [] 1))) ''tone_analysis'')"
proof -
  have h1: "(0::int) \<le> 1" by simp
  have h2: "budget (start [] 1) = BudgetManager_init 1" by (simp add: start_def)
  have h3: "calls (start [] 1) = []" by (simp add: start_def)
  from pipeline_respects_budget [OF h1 h2 h3,
      of "test_env (Some ''<html>'') (Some ''Short content'') (Some ''no json'')"
        "[''a'', ''b'', ''c'']" True False] h1 h2 h3
  show ?thesis by blast
qed

text \<open>
  Claim C9. With \<^verbatim>\<open>max_calls = 0\<close> and the language model enabled, the loop of \<^verbatim>\<open>audit\<close>
  processes the first URL and stops: on a list that is not empty the results are the
  one result of \<^verbatim>\<open>process_page\<close> for the first URL and the state is the one that call
  left, so the result list has length \<open>min 1 (length urls)\<close>. The budget is untouched
  and no analyzer call was made; the check after the page fails because \<open>0 \<ge> 0\<close>.
\<close>

theorem zero_budget_one_page:
  assumes "budget s = BudgetManager_init 0"
  shows "batch_loop env urls False [] s =
           (case urls of
              [] \<Rightarrow> ([], s)
            | u # rest \<Rightarrow> ([fst (process_page env u True s)], snd (process_page env u True s)))
       \<and> length (fst (batch_loop env urls False [] s)) = min 1 (length urls)
       \<and> budget (snd (batch_loop env urls False [] s)) = budget s
       \<and> tone_calls (snd (batch_loop env urls False [] s)) = tone_calls s"
proof (cases urls)
  case Nil
  then show ?thesis by simp
next
  case (Cons u rest)
  from assms have closed: "\<not> can_make_call (budget s) ''tone_analysis''"
    and closed': "\<not> can_make_call (budget s) ''default''"
    by (simp_all add: can_make_call_def BudgetManager_init_def)
  from process_page_closed [OF closed, of env u True] closed' Cons
  show ?thesis by (simp add: case_prod_unfold can_make_call_def)
qed

theorem zero_budget_one_page_witness:
  "budget (start [] 0) = BudgetManager_init 0
   \<and> fst (batch_loop (test_env (Some ''<html>'') (Some ''Short content'')
         (Some ''no json'')) [''a'', ''b'', ''c''] False [] (start [] 0))
     = [fst (process_page (test_env (Some ''<html>'') (Some ''Short content'')
         (Some ''no json'')) ''a'' True (start [] 0))]
   \<and> length (fst (batch_loop (test_env (Some ''<html>'') (Some ''Short content'')
         (Some ''no json'')) [''a'', ''b'', ''c''] False [] (start [] 0))) = 1"
proof -
  have h: "budget (start [] 0) = BudgetManager_init 0" by (simp add: start_def)
  note w = zero_budget_one_page [OF h,
      of "test_env (Some ''<html>'') (Some ''Short content'') (Some ''no json'')"
        "[''a'', ''b'', ''c'']"]
  from w have "batch_loop (test_env (Some ''<html>'') (Some ''Short content'')
         (Some ''no json'')) [''a'', ''b'', ''c''] False [] (start [] 0)
     = ([fst (process_page (test_env (Some ''<html>'') (Some ''Short content'')
         (Some ''no json'')) ''a'' True (start [] 0))],
        snd (process_page (test_env (Some ''<html>'') (Some ''Short content'')
         (Some ''no json'')) ''a'' True (start [] 0)))"
    by (simp only: list.case)
  with h show ?thesis by (simp only: fst_conv list.size) simp
qed

section \<open>The budget runs out in the middle of a batch\<close>

lemma compile_result_fields:
  "py_getitem (compile_result u seo a11y t) ''url'' = Inr (JString u)"
  "tone_of (compile_result u seo a11y t) = t"
  by (simp_all add: compile_result_def tone_of_def)




section \<open>A malformed answer of the model\<close>

lemma record_call_changes: "record_call b t \<noteq> b"
proof
  assume "record_call b t = b"
  then have "calls_made (record_call b t) = calls_made b" by simp
  then show False by simp
qed

lemma record_call_by_type:
  "dict_get (calls_by_type (record_call b t)) t 0 = dict_get (calls_by_type b) t 0 + 1"
  by (simp add: record_call_def dict_get_def dict_set_def update_conv')

text \<open>
  Claim C10. For a page that reaches the tone step with the budget open: when the
  model's answer does not parse as JSON, or parses to a value without the three keys,
  \<^verbatim>\<open>analyze_tone\<close> returns the \<^verbatim>\<open>Unable to analyze\<close> triple, the page result carries
  it, and \<^verbatim>\<open>process_page\<close> records the call: \<^verbatim>\<open>calls_made\<close> and the count of
  \<^verbatim>\<open>tone_analysis\<close> calls both go up by one. In general \<^verbatim>\<open>calls_made\<close> goes up by one
  unless \<^verbatim>\<open>analyze_tone\<close> returned \<^verbatim>\<open>None\<close>: the budget counters are unchanged exactly
  then, and that is exactly when an exception reached its outer \<^verbatim>\<open>except\<close>.
\<close>

theorem malformed_output_consumes_budget:
  assumes miss: "\<not> truthy (Cache_get env (cache_files s) u)"
    and page: "http_get env u (world s) = (Some html, w1)" "html \<noteq> []"
    and body: "extract_text env html = Some tx" "tx \<noteq> []"
    and gate: "can_make_call (budget s) ''tone_analysis''"
  shows "(llm_invoke env (prompt (take 1200 tx)) w1 = (Some response, w2)
           \<and> json_loads env (clean_response response) = Inl JSONDecodeError
          \<longrightarrow> fst (analyze_tone env tx w1)
                = JObject [(''readability'', JString ''Unable to analyze''),
                           (''tone'', JString ''Unable to analyze''),
                           (''risks'', JString ''Analysis failed - JSON parse error'')]
              \<and> fst (analyze_tone env tx w1) = parse_error
              \<and> tone_of (fst (process_page env u True s)) = parse_error
              \<and> budget (snd (process_page env u True s))
                  = record_call (budget s) ''tone_analysis''
              \<and> calls_made (budget (snd (process_page env u True s)))
                  = calls_made (budget s) + 1
              \<and> dict_get (calls_by_type (budget (snd (process_page env u True s))))
                    ''tone_analysis'' 0
                  = dict_get (calls_by_type (budget s)) ''tone_analysis'' 0 + 1
              \<and> recorded (snd (process_page env u True s)) ''tone_analysis''
                  = Suc (recorded s ''tone_analysis''))
       \<and> (llm_invoke env (prompt (take 1200 tx)) w1 = (Some response, w2)
           \<and> json_loads env (clean_response response) = Inr result
           \<and> all_keys_in result [''readability'', ''tone'', ''risks''] = Inr False
          \<longrightarrow> fst (analyze_tone env tx w1)
                = JObject [(''readability'', JString ''Unable to analyze''),
                           (''tone'', JString ''Unable to analyze''),
                           (''risks'', JString ''Analysis failed - invalid response format'')]
              \<and> fst (analyze_tone env tx w1) = invalid_format
              \<and> tone_of (fst (process_page env u True s)) = invalid_format
              \<and> budget (snd (process_page env u True s))
                  = record_call (budget s) ''tone_analysis''
              \<and> calls_made (budget (snd (process_page env u True s)))
                  = calls_made (budget s) + 1
              \<and> dict_get (calls_by_type (budget (snd (process_page env u True s))))
                    ''tone_analysis'' 0
                  = dict_get (calls_by_type (budget s)) ''tone_analysis'' 0 + 1
              \<and> recorded (snd (process_page env u True s)) ''tone_analysis''
                  = Suc (recorded s ''tone_analysis''))
       \<and> calls_made (budget (snd (process_page env u True s)))
           = (if fst (analyze_tone env tx w1) = JNull then calls_made (budget s)
              else calls_made (budget s) + 1)
       \<and> ((budget (snd (process_page env u True s)) = budget s)
            = (fst (analyze_tone env tx w1) = JNull))
       \<and> ((fst (analyze_tone env tx w1) = JNull) = isl (fst (tone_try env tx w1)))"
proof -
  note full = process_page_full [OF miss page body, of True]
  have cut: "(if 1200 < length tx then take 1200 tx else tx) = take 1200 tx" by simp
  have a: "fst (analyze_tone env tx w1) = parse_error"
    if "llm_invoke env (prompt (take 1200 tx)) w1 = (Some response, w2)"
      and "json_loads env (clean_response response) = Inl JSONDecodeError"
    using that by (simp add: analyze_tone_def tone_try_def cut)
  have b: "fst (analyze_tone env tx w1) = invalid_format"
    if "llm_invoke env (prompt (take 1200 tx)) w1 = (Some response, w2)"
      and "json_loads env (clean_response response) = Inr result"
      and "all_keys_in result [''readability'', ''tone'', ''risks''] = Inr False"
    using that by (simp add: analyze_tone_def tone_try_def cut)
  have t: "tone_of (fst (process_page env u True s)) = fst (analyze_tone env tx w1)"
    using gate by (simp add: full compile_result_fields)
  have r: "budget (snd (process_page env u True s))
             = (if fst (analyze_tone env tx w1) = JNull then budget s
                else record_call (budget s) ''tone_analysis'')"
    using gate by (simp add: full analyze_tone_truthy)
  have n: "recorded (snd (process_page env u True s)) ''tone_analysis''
             = (if fst (analyze_tone env tx w1) = JNull then recorded s ''tone_analysis''
                else Suc (recorded s ''tone_analysis''))"
    using gate by (simp add: full analyze_tone_truthy)
  have p: "parse_error \<noteq> JNull" "invalid_format \<noteq> JNull"
    by (simp_all add: parse_error_def invalid_format_def)
  have first: "llm_invoke env (prompt (take 1200 tx)) w1 = (Some response, w2)
           \<and> json_loads env (clean_response response) = Inl JSONDecodeError
          \<longrightarrow> fst (analyze_tone env tx w1)
                = JObject [(''readability'', JString ''Unable to analyze''),
                           (''tone'', JString ''Unable to analyze''),
                           (''risks'', JString ''Analysis failed - JSON parse error'')]
              \<and> fst (analyze_tone env tx w1) = parse_error
              \<and> tone_of (fst (process_page env u True s)) = parse_error
              \<and> budget (snd (process_page env u True s))
                  = record_call (budget s) ''tone_analysis''
              \<and> calls_made (budget (snd (process_page env u True s)))
                  = calls_made (budget s) + 1
              \<and> dict_get (calls_by_type (budget (snd (process_page env u True s))))
                    ''tone_analysis'' 0
                  = dict_get (calls_by_type (budget s)) ''tone_analysis'' 0 + 1
              \<and> recorded (snd (process_page env u True s)) ''tone_analysis''
                  = Suc (recorded s ''tone_analysis'')"
  proof
    assume h: "llm_invoke env (prompt (take 1200 tx)) w1 = (Some response, w2)
           \<and> json_loads env (clean_response response) = Inl JSONDecodeError"
    then have e: "fst (analyze_tone env tx w1) = parse_error" using a by blast
    with t r n p show "fst (analyze_tone env tx w1)
                = JObject [(''readability'', JString ''Unable to analyze''),
                           (''tone'', JString ''Unable to analyze''),
                           (''risks'', JString ''Analysis failed - JSON parse error'')]
              \<and> fst (analyze_tone env tx w1) = parse_error
              \<and> tone_of (fst (process_page env u True s)) = parse_error
              \<and> budget (snd (process_page env u True s))
                  = record_call (budget s) ''tone_analysis''
              \<and> calls_made (budget (snd (process_page env u True s)))
                  = calls_made (budget s) + 1
              \<and> dict_get (calls_by_type (budget (snd (process_page env u True s))))
                    ''tone_analysis'' 0
                  = dict_get (calls_by_type (budget s)) ''tone_analysis'' 0 + 1
              \<and> recorded (snd (process_page env u True s)) ''tone_analysis''
                  = Suc (recorded s ''tone_analysis'')"
      by (simp add: record_call_by_type) (simp add: parse_error_def)
  qed
  have second: "llm_invoke env (prompt (take 1200 tx)) w1 = (Some response, w2)
           \<and> json_loads env (clean_response response) = Inr result
           \<and> all_keys_in result [''readability'', ''tone'', ''risks''] = Inr False
          \<longrightarrow> fst (analyze_tone env tx w1)
                = JObject [(''readability'', JString ''Unable to analyze''),
                           (''tone'', JString ''Unable to analyze''),
                           (''risks'', JString ''Analysis failed - invalid response format'')]
              \<and> fst (analyze_tone env tx w1) = invalid_format
              \<and> tone_of (fst (process_page env u True s)) = invalid_format
              \<and> budget (snd (process_page env u True s))
                  = record_call (budget s) ''tone_analysis''
              \<and> calls_made (budget (snd (process_page env u True s)))
                  = calls_made (budget s) + 1
              \<and> dict_get (calls_by_type (budget (snd (process_page env u True s))))
                    ''tone_analysis'' 0
                  = dict_get (calls_by_type (budget s)) ''tone_analysis'' 0 + 1
              \<and> recorded (snd (process_page env u True s)) ''tone_analysis''
                  = Suc (recorded s ''tone_analysis'')"
  proof
    assume h: "llm_invoke env (prompt (take 1200 tx)) w1 = (Some response, w2)
           \<and> json_loads env (clean_response response) = Inr result
           \<and> all_keys_in result [''readability'', ''tone'', ''risks''] = Inr False"
    then have e: "fst (analyze_tone env tx w1) = invalid_format" using b by blast
    with t r n p show "fst (analyze_tone env tx w1)
                = JObject [(''readability'', JString ''Unable to analyze''),
                           (''tone'', JString ''Unable to analyze''),
                           (''risks'', JString ''Analysis failed - invalid response format'')]
              \<and> fst (analyze_tone env tx w1) = invalid_format
              \<and> tone_of (fst (process_page env u True s)) = invalid_format
              \<and> budget (snd (process_page env u True s))
                  = record_call (budget s) ''tone_analysis''
              \<and> calls_made (budget (snd (process_page env u True s)))
                  = calls_made (budget s) + 1
              \<and> dict_get (calls_by_type (budget (snd (process_page env u True s))))
                    ''tone_analysis'' 0
                  = dict_get (calls_by_type (budget s)) ''tone_analysis'' 0 + 1
              \<and> recorded (snd (process_page env u True s)) ''tone_analysis''
                  = Suc (recorded s ''tone_analysis'')"
      by (simp add: record_call_by_type) (simp add: invalid_format_def)
  qed
  have third: "calls_made (budget (snd (process_page env u True s)))
           = (if fst (analyze_tone env tx w1) = JNull then calls_made (budget s)
              else calls_made (budget s) + 1)"
    by (simp add: r)
  have fourth: "(budget (snd (process_page env u True s)) = budget s)
            = (fst (analyze_tone env tx w1) = JNull)"
    by (simp add: r record_call_changes)
  have fifth: "(fst (analyze_tone env tx w1) = JNull) = isl (fst (tone_try env tx w1))"
    by (rule analyze_tone_null)
  from first second third fourth fifth show ?thesis by (intro conjI)
qed

theorem malformed_output_consumes_budget_witness:
  "tone_of (fst (process_page (test_env (Some ''<html>'') (Some ''Short content'') (Some ''no json''))
      ''u'' True (start [] 3)))
     = JObject [(''readability'', JString ''Unable to analyze''),
                (''tone'', JString ''Unable to analyze''),
                (''risks'', JString ''Analysis failed - JSON parse error'')]
   \<and> calls_made (budget (snd (process_page
         (test_env (Some ''<html>'') (Some ''Short content'') (Some ''no json''))
         ''u'' True (start [] 3))))
       = 1
   \<and> tone_of (fst (process_page (test_env (Some ''<html>'') (Some ''Short content'') (Some ''{}''))
      ''u'' True (start [] 3)))
     = JObject [(''readability'', JString ''Unable to analyze''),
                (''tone'', JString ''Unable to analyze''),
                (''risks'', JString ''Analysis failed - invalid response format'')]
   \<and> calls_made (budget (snd (process_page
         (test_env (Some ''<html>'') (Some ''Short content'') (Some ''{}''))
         ''u'' True (start [] 3))))
       = 1
   \<and> budget (snd (process_page (test_env (Some ''<html>'') (Some ''Short content'') (Some ''null''))
         ''u'' True (start [] 3)))
       = budget (start [] 3)"
proof -
  have miss: "\<not> truthy (Cache_get (test_env (Some ''<html>'') (Some ''Short content'') reply)
                  (cache_files (start [] 3)) ''u'')" for reply
    by (simp add: Cache_get_def start_def)
  have page: "http_get (test_env (Some ''<html>'') (Some ''Short content'') reply) ''u''
                (world (start [] 3)) = (Some ''<html>'', ())" for reply
    by (simp add: test_env_def)
  have html: "''<html>'' \<noteq> []" by simp
  have body: "extract_text (test_env (Some ''<html>'') (Some ''Short content'') reply) ''<html>''
                = Some ''Short content''" for reply
    by (simp add: test_env_def extract_text_def strip_def is_space_def)
  have tx: "''Short content'' \<noteq> []" by simp
  have gate: "can_make_call (budget (start [] 3)) ''tone_analysis''"
    by (simp add: start_def can_make_call_def BudgetManager_init_def)
  have zero: "calls_made (budget (start [] 3)) = 0"
    by (simp add: start_def BudgetManager_init_def)
  have clean: "clean_response ''no json'' = ''no json''" "clean_response ''{}'' = ''{}''"
    "clean_response ''null'' = ''null''"
    by (simp_all add: clean_response_def strip_def is_space_def startswith_def fence_def)
  have r1: "llm_invoke (test_env (Some ''<html>'') (Some ''Short content'') (Some ''no json''))
              (prompt (take 1200 ''Short content'')) () = (Some ''no json'', ())
            \<and> json_loads (test_env (Some ''<html>'') (Some ''Short content'') (Some ''no json''))
                (clean_response ''no json'') = Inl JSONDecodeError"
    by (simp add: test_env_def clean test_documents_def)
  have r2: "llm_invoke (test_env (Some ''<html>'') (Some ''Short content'') (Some ''{}''))
              (prompt (take 1200 ''Short content'')) () = (Some ''{}'', ())
            \<and> json_loads (test_env (Some ''<html>'') (Some ''Short content'') (Some ''{}''))
                (clean_response ''{}'') = Inr (JObject [])
            \<and> all_keys_in (JObject []) [''readability'', ''tone'', ''risks''] = Inr False"
    by (simp add: test_env_def clean test_documents_def)
  have r3: "isl (fst (tone_try (test_env (Some ''<html>'') (Some ''Short content'') (Some ''null''))
              ''Short content'' ()))"
    by (simp add: tone_try_def test_env_def clean test_documents_def)
  note w1 = malformed_output_consumes_budget [OF miss page html body tx gate,
      of "Some ''no json''" "''no json''" "()"]
  note w2 = malformed_output_consumes_budget [OF miss page html body tx gate,
      of "Some ''{}''" "''{}''" "()" "JObject []"]
  note w3 = malformed_output_consumes_budget [OF miss page html body tx gate, of "Some ''null''"]
  from w1 r1 have a1: "tone_of (fst (process_page
        (test_env (Some ''<html>'') (Some ''Short content'') (Some ''no json''))
        ''u'' True (start [] 3))) = parse_error
      \<and> calls_made (budget (snd (process_page
         (test_env (Some ''<html>'') (Some ''Short content'') (Some ''no json''))
         ''u'' True (start [] 3)))) = calls_made (budget (start [] 3)) + 1"
    by blast
  from w2 r2 have a2: "tone_of (fst (process_page
        (test_env (Some ''<html>'') (Some ''Short content'') (Some ''{}''))
        ''u'' True (start [] 3))) = invalid_format
      \<and> calls_made (budget (snd (process_page
         (test_env (Some ''<html>'') (Some ''Short content'') (Some ''{}''))
         ''u'' True (start [] 3)))) = calls_made (budget (start [] 3)) + 1"
    by blast
  from w3 r3 have a3: "budget (snd (process_page
        (test_env (Some ''<html>'') (Some ''Short content'') (Some ''null''))
         ''u'' True (start [] 3))) = budget (start [] 3)"
    by blast
  from a1 a2 a3 zero show ?thesis by (simp add: parse_error_def invalid_format_def)
qed

end
